theory Spec2Isabelle
  imports Complex_Main "HOL-Library.Multiset"
begin

section \<open>JavaScript values\<close>

text \<open>
  Keyframe values, property bags and effect parameters are typed \<open>any\<close> in the source.
  They are embedded as trees: a number is a rational (the embedding has no NaN, no
  infinities and no rounding), an object is the list of its own enumerable keys, in
  enumeration order, with their values. Every such object is a plain one: it inherits from
  \<open>Object.prototype\<close>, whose properties the operator \<open>in\<close> and a property read find as
  well. These are eleven built-in functions and the accessor \<open>__proto__\<close>. A built-in
  function is a value of its own, named by the key under which \<open>Object.prototype\<close> holds
  it; \<open>VPrototype\<close> is \<open>Object.prototype\<close> itself, which is what reading \<open>__proto__\<close> of a
  plain object gives. Arrays are not among these values.
\<close>

datatype val =
    VUndefined
  | VNull
  | VBool bool
  | VNum rat
  | VStr string
  | VFunction string
  | VPrototype
  | VObj "(string \<times> val) list"

datatype jstype = TUndefined | TObject | TBoolean | TNumber | TString | TFunction

text \<open>
  \<open>TypeError\<close> and \<open>RangeError\<close> are the exceptions (the second is the one of a call stack
  that is used up). The other two are not exceptions; they mark a point where the model
  stops instead of going on with a wrong state. \<open>NotANumber\<close> marks a product whose
  JavaScript value is NaN, which the numbers of the embedding do not have.
  \<open>BuiltinObject\<close> marks an operation on a built-in object that the embedding does not
  follow: a write to the key \<open>__proto__\<close> of an object that has no such key of its own
  (which changes the prototype of the object instead of adding a key), a write to a
  property of a built-in function or of \<open>Object.prototype\<close>, the test \<open>key in f\<close> on a
  built-in function \<open>f\<close>, and a call of a built-in function held by an object under
  \<open>valueOf\<close> or \<open>toString\<close>.
\<close>

datatype error = TypeError | RangeError | NotANumber | BuiltinObject

text \<open>\<open>typeof v\<close>; \<open>typeof null\<close> is \<open>'object'\<close>.\<close>

fun typeof :: "val \<Rightarrow> jstype" where
  "typeof VUndefined = TUndefined"
| "typeof VNull = TObject"
| "typeof (VBool b) = TBoolean"
| "typeof (VNum n) = TNumber"
| "typeof (VStr s) = TString"
| "typeof (VFunction f) = TFunction"
| "typeof VPrototype = TObject"
| "typeof (VObj fs) = TObject"

text \<open>
  The names of the properties of \<open>Object.prototype\<close>: those that hold a function, and all
  of them.
\<close>

definition object_prototype_functions :: "string list" where
  "object_prototype_functions =
     [''constructor'', ''__defineGetter__'', ''__defineSetter__'', ''hasOwnProperty'',
      ''__lookupGetter__'', ''__lookupSetter__'', ''isPrototypeOf'', ''propertyIsEnumerable'',
      ''toString'', ''valueOf'', ''toLocaleString'']"

definition object_prototype_names :: "string list" where
  "object_prototype_names = ''__proto__'' # object_prototype_functions"

text \<open>
  \<open>key in v\<close>: true of an object for its own keys and for the names it inherits; a
  TypeError on anything that is not an object, \<open>null\<close> included.
\<close>

fun has_key :: "string \<Rightarrow> val \<Rightarrow> error + bool" where
  "has_key k (VObj fs) = Inr (k \<in> fst ` set fs \<or> k \<in> set object_prototype_names)"
| "has_key k VPrototype = Inr (k \<in> set object_prototype_names)"
| "has_key k (VFunction f) = Inl BuiltinObject"
| "has_key k v = Inl TypeError"

text \<open>
  What a plain object finds under a key that is not its own: the built-in function,
  \<open>Object.prototype\<close> for \<open>__proto__\<close>, and \<open>undefined\<close> for any other key.
\<close>

definition inherited :: "string \<Rightarrow> val" where
  "inherited k =
     (if k = ''__proto__'' then VPrototype
      else if k \<in> set object_prototype_functions then VFunction k
      else VUndefined)"

text \<open>
  \<open>v[key]\<close>: the value an object holds under the key, or else the one it inherits. The
  prototype of \<open>Object.prototype\<close> is \<open>null\<close>. Of a primitive or a function only the names
  \<open>opacity\<close> and \<open>filter\<close> are read, which neither has.
\<close>

fun get_prop :: "val \<Rightarrow> string \<Rightarrow> val" where
  "get_prop (VObj fs) k = (case map_of fs k of Some v \<Rightarrow> v | None \<Rightarrow> inherited k)"
| "get_prop VPrototype k = (if k = ''__proto__'' then VNull else inherited k)"
| "get_prop v k = VUndefined"

section \<open>Animation evaluator (core.ts)\<close>

subsection \<open>interpolateValue\<close>

text \<open>
  Modelled from the spec: \<open>interpolate\<close> is imported from the remotion package, which is
  not part of the repository. The spec says of numeric values: "linear interpolation on
  the eased t". \<open>interpolate progress [0, 1] [a, b]\<close> is therefore \<open>a + progress * (b - a)\<close>,
  with no clamping outside \<open>[0, 1]\<close>.
\<close>

definition interpolate :: "rat \<Rightarrow> rat \<Rightarrow> rat \<Rightarrow> rat" where
  "interpolate progress a b = a + progress * (b - a)"

text \<open>
  \<open>interpolateValue from to progress\<close>. The equations follow the three branches of the
  source: both numbers; both of type \<open>'object'\<close> (the loop over the keys of \<open>from\<close> is
  \<open>interpolateFields\<close>; \<open>null\<close> and \<open>Object.prototype\<close> have no enumerable keys to loop
  over, and \<open>key in null\<close> raises); otherwise the switch at \<open>progress < 0.5\<close>. The result
  object is new and empty, so the assignment \<open>result[key] = ...\<close> adds the key, except
  for the key \<open>__proto__\<close>.
\<close>

fun interpolateValue :: "val \<Rightarrow> val \<Rightarrow> rat \<Rightarrow> error + val"
  and interpolateFields :: "(string \<times> val) list \<Rightarrow> val \<Rightarrow> rat \<Rightarrow> error + (string \<times> val) list"
where
  "interpolateValue (VNum a) to progress =
     (case to of
        VNum b \<Rightarrow> Inr (VNum (interpolate progress a b))
      | _ \<Rightarrow> Inr (if progress < 1 / 2 then VNum a else to))"
| "interpolateValue (VObj fs) to progress =
     (if typeof to = TObject then
        (case interpolateFields fs to progress of
           Inl e \<Rightarrow> Inl e
         | Inr rs \<Rightarrow> Inr (VObj rs))
      else Inr (if progress < 1 / 2 then VObj fs else to))"
| "interpolateValue VNull to progress =
     (if typeof to = TObject then Inr (VObj [])
      else Inr (if progress < 1 / 2 then VNull else to))"
| "interpolateValue VPrototype to progress =
     (if typeof to = TObject then Inr (VObj [])
      else Inr (if progress < 1 / 2 then VPrototype else to))"
| "interpolateValue VUndefined to progress =
     Inr (if progress < 1 / 2 then VUndefined else to)"
| "interpolateValue (VBool b) to progress =
     Inr (if progress < 1 / 2 then VBool b else to)"
| "interpolateValue (VStr s) to progress =
     Inr (if progress < 1 / 2 then VStr s else to)"
| "interpolateValue (VFunction f) to progress =
     Inr (if progress < 1 / 2 then VFunction f else to)"
| "interpolateFields [] to progress = Inr []"
| "interpolateFields ((key, v) # rest) to progress =
     (case has_key key to of
        Inl e \<Rightarrow> Inl e
      | Inr True \<Rightarrow>
          (case interpolateValue v (get_prop to key) progress of
             Inl e \<Rightarrow> Inl e
           | Inr r \<Rightarrow>
               if key = ''__proto__'' then Inl BuiltinObject
               else
                 (case interpolateFields rest to progress of
                    Inl e \<Rightarrow> Inl e
                  | Inr rs \<Rightarrow> Inr ((key, r) # rs)))
      | Inr False \<Rightarrow>
          (case interpolateFields rest to progress of
             Inl e \<Rightarrow> Inl e
           | Inr rs \<Rightarrow> Inr ((key, v) # rs)))"

text \<open>
  A value with no \<open>null\<close> in it, and a value with no key \<open>__proto__\<close> in it, at any depth.
\<close>

fun null_free :: "val \<Rightarrow> bool" where
  "null_free VNull = False"
| "null_free (VObj fs) = list_all (\<lambda>kv. null_free (snd kv)) fs"
| "null_free v = True"


subsection \<open>Animations and keyframes\<close>

datatype easing_type =
    Linear | Ease | EaseIn | EaseOut | EaseInOut | Spring | Bounce | Elastic | Back | CubicBezier

text \<open>
  \<open>Keyframe\<close> and \<open>Animation\<close>, with the fields the evaluator reads (\<open>id\<close>, \<open>tension\<close> and
  \<open>friction\<close> are never read by it). A keyframe's easing is optional. Two types are
  parameters: the type of the keyframe values, and what an animation holds as its keyframe
  array. Here the values are trees and the animation holds the list of its keyframes; in
  the store further down the values may be references, and the animation holds the
  address of its array.
\<close>

record 'v keyframe_of =
  kf_frame :: rat
  kf_value :: 'v
  kf_easing :: "easing_type option"

record 'k animation_of =
  an_property :: string
  an_keyframes :: 'k
  an_easing :: easing_type
  an_duration :: rat
  an_delay :: rat
  an_loop :: bool
  an_yoyo :: bool

type_synonym keyframe = "val keyframe_of"

type_synonym animation = "val keyframe_of list animation_of"

text \<open>
  \<open>applyEasing\<close>. The curves of \<open>ease\<close>, \<open>ease-in\<close>, \<open>ease-out\<close>, \<open>ease-in-out\<close>, \<open>spring\<close>
  and \<open>bounce\<close> are computed by the remotion package, outside the repository: they are the
  parameter \<open>curve\<close>. \<open>linear\<close> and the \<open>default\<close> branch (\<open>elastic\<close>, \<open>back\<close>,
  \<open>cubic-bezier\<close>) return the progress unchanged.
\<close>

fun applyEasing :: "(easing_type \<Rightarrow> rat \<Rightarrow> rat) \<Rightarrow> rat \<Rightarrow> easing_type \<Rightarrow> rat" where
  "applyEasing curve progress Linear = progress"
| "applyEasing curve progress Ease = curve Ease progress"
| "applyEasing curve progress EaseIn = curve EaseIn progress"
| "applyEasing curve progress EaseOut = curve EaseOut progress"
| "applyEasing curve progress EaseInOut = curve EaseInOut progress"
| "applyEasing curve progress Spring = curve Spring progress"
| "applyEasing curve progress Bounce = curve Bounce progress"
| "applyEasing curve progress easing = progress"

text \<open>
  The remainder \<open>a % b\<close> of JavaScript: the quotient is truncated towards zero, so the
  result has the sign of \<open>a\<close>. It is only used with \<open>b\<close> positive.
\<close>

definition js_rem :: "rat \<Rightarrow> rat \<Rightarrow> rat" where
  "js_rem a b =
     (let q = a / b in a - b * of_int (if q < 0 then \<lceil>q\<rceil> else \<lfloor>q\<rfloor>))"

text \<open>
  The looping step of \<open>calculateAnimationValue\<close>: the value of the local \<open>currentFrame\<close>
  for a delay-adjusted frame.
\<close>

definition currentFrame :: "'k animation_of \<Rightarrow> rat \<Rightarrow> rat" where
  "currentFrame animation adjustedFrame =
     (if an_loop animation \<and> an_duration animation > 0 then
        (let folded = js_rem adjustedFrame (an_duration animation) in
         if an_yoyo animation
            \<and> js_rem (of_int \<lfloor>adjustedFrame / an_duration animation\<rfloor>) 2 = 1
         then an_duration animation - folded
         else folded)
      else adjustedFrame)"

text \<open>
  The \<open>for\<close> loop over adjacent keyframes: the first pair that brackets the frame is
  interpolated, with the next keyframe's easing if it has one and the animation's
  otherwise; \<open>undefined\<close> when no pair does. \<open>calculateAnimationValue\<close> enters the loop
  with the sorted list and a frame strictly after its first keyframe; the first pair that
  brackets such a frame starts strictly before it, so the divisor is positive there.
\<close>

fun interpolateKeyframes ::
  "(easing_type \<Rightarrow> rat \<Rightarrow> rat) \<Rightarrow> easing_type \<Rightarrow> keyframe list \<Rightarrow> rat \<Rightarrow> error + val"
where
  "interpolateKeyframes curve easing (current # next # rest) frame =
     (if frame \<ge> kf_frame current \<and> frame \<le> kf_frame next then
        (let progress = (frame - kf_frame current) / (kf_frame next - kf_frame current);
             easedProgress =
               applyEasing curve progress
                 (case kf_easing next of Some e \<Rightarrow> e | None \<Rightarrow> easing)
         in interpolateValue (kf_value current) (kf_value next) easedProgress)
      else interpolateKeyframes curve easing (next # rest) frame)"
| "interpolateKeyframes curve easing keyframes frame = Inr VUndefined"

text \<open>
  \<open>calculateAnimationValue\<close>, on an animation that holds its keyframes and values that
  are trees. \<open>Array.prototype.sort\<close> sorts \<open>animation.keyframes\<close> in place and is stable,
  as \<open>sort_key\<close> is; the animation is returned as the call leaves it, next to the result.
  \<open>hd\<close> and \<open>last\<close> are only taken of the sorted list, which is not empty there.
\<close>

definition calculateAnimationValue ::
  "(easing_type \<Rightarrow> rat \<Rightarrow> rat) \<Rightarrow> animation \<Rightarrow> rat \<Rightarrow> animation \<times> (error + val)"
where
  "calculateAnimationValue curve animation frame =
     (if an_keyframes animation = [] then (animation, Inr VUndefined)
      else
        let adjustedFrame = frame - an_delay animation in
        if adjustedFrame < 0 then (animation, Inr VUndefined)
        else
          let cur = currentFrame animation adjustedFrame;
              keyframes = sort_key kf_frame (an_keyframes animation);
              animation' = animation\<lparr>an_keyframes := keyframes\<rparr>
          in
            if cur \<le> kf_frame (hd keyframes) then (animation', Inr (kf_value (hd keyframes)))
            else if cur \<ge> kf_frame (last keyframes)
            then (animation', Inr (kf_value (last keyframes)))
            else (animation', interpolateKeyframes curve (an_easing animation) keyframes cur))"

subsection \<open>Property writes and paths\<close>

text \<open>
  \<open>obj[key] = value\<close> on the fields of an object: an existing key keeps its place, a new
  key goes last. (JavaScript enumerates the keys that are array indices before the
  others, in ascending order; the lists here do not move such a key to the front.)
\<close>

fun set_field :: "(string \<times> 'v) list \<Rightarrow> string \<Rightarrow> 'v \<Rightarrow> (string \<times> 'v) list" where
  "set_field [] k v = [(k, v)]"
| "set_field ((k', v') # fs) k v =
     (if k' = k then (k, v) # fs else (k', v') # set_field fs k v)"

text \<open>\<open>path.split('.')\<close>: never empty; the empty path gives one empty key.\<close>

fun split_dot :: "string \<Rightarrow> string list" where
  "split_dot [] = [[]]"
| "split_dot (c # cs) =
     (if c = CHR ''.'' then [] # split_dot cs
      else (case split_dot cs of
              [] \<Rightarrow> [[c]]
            | w # ws \<Rightarrow> (c # w) # ws))"

subsection \<open>Objects and keyframe arrays in a store\<close>

text \<open>
  What \<open>calculateElementPropertiesAtFrame\<close> does to the objects it is given depends on
  which of them are shared, and it is called again on what it has left behind. So the
  objects and the keyframe arrays of the elements live in a store, each at the address
  that a reference to it holds; a value is a primitive, a built-in object or a reference.
  An allocation appends to the store. An address outside the store does not arise from
  allocation; it reads as an object without keys, or as an empty array.
\<close>

datatype hval =
    HUndefined
  | HNull
  | HBool bool
  | HNum rat
  | HStr string
  | HFunction string
  | HPrototype
  | HRef nat

record store =
  st_objects :: "(string \<times> hval) list list"
  st_keyframes :: "hval keyframe_of list list"

fun typeof_h :: "hval \<Rightarrow> jstype" where
  "typeof_h HUndefined = TUndefined"
| "typeof_h HNull = TObject"
| "typeof_h (HBool b) = TBoolean"
| "typeof_h (HNum n) = TNumber"
| "typeof_h (HStr s) = TString"
| "typeof_h (HFunction f) = TFunction"
| "typeof_h HPrototype = TObject"
| "typeof_h (HRef a) = TObject"

definition fields_at :: "store \<Rightarrow> nat \<Rightarrow> (string \<times> hval) list" where
  "fields_at st a = (if a < length (st_objects st) then st_objects st ! a else [])"

definition keyframes_at :: "store \<Rightarrow> nat \<Rightarrow> hval keyframe_of list" where
  "keyframes_at st a = (if a < length (st_keyframes st) then st_keyframes st ! a else [])"

text \<open>A new object with the given fields; its address is the former number of objects.\<close>

definition allocate :: "store \<Rightarrow> (string \<times> hval) list \<Rightarrow> store" where
  "allocate st fs = st\<lparr>st_objects := st_objects st @ [fs]\<rparr>"

definition write_field :: "store \<Rightarrow> nat \<Rightarrow> string \<Rightarrow> hval \<Rightarrow> store" where
  "write_field st a k v =
     (if a < length (st_objects st)
      then st\<lparr>st_objects := (st_objects st)[a := set_field (st_objects st ! a) k v]\<rparr>
      else st)"

definition write_keyframes :: "store \<Rightarrow> nat \<Rightarrow> hval keyframe_of list \<Rightarrow> store" where
  "write_keyframes st a keyframes =
     (if a < length (st_keyframes st)
      then st\<lparr>st_keyframes := (st_keyframes st)[a := keyframes]\<rparr>
      else st)"

text \<open>\<open>key in v\<close>, \<open>v[key]\<close> and \<open>v[key] = w\<close> in a store, as for the trees above.\<close>

fun has_key_st :: "store \<Rightarrow> string \<Rightarrow> hval \<Rightarrow> error + bool" where
  "has_key_st st k (HRef a) =
     Inr (k \<in> fst ` set (fields_at st a) \<or> k \<in> set object_prototype_names)"
| "has_key_st st k HPrototype = Inr (k \<in> set object_prototype_names)"
| "has_key_st st k (HFunction f) = Inl BuiltinObject"
| "has_key_st st k v = Inl TypeError"

definition inherited_st :: "string \<Rightarrow> hval" where
  "inherited_st k =
     (if k = ''__proto__'' then HPrototype
      else if k \<in> set object_prototype_functions then HFunction k
      else HUndefined)"

fun get_prop_st :: "store \<Rightarrow> hval \<Rightarrow> string \<Rightarrow> hval" where
  "get_prop_st st (HRef a) k =
     (case map_of (fields_at st a) k of Some v \<Rightarrow> v | None \<Rightarrow> inherited_st k)"
| "get_prop_st st HPrototype k = (if k = ''__proto__'' then HNull else inherited_st k)"
| "get_prop_st st v k = HUndefined"

text \<open>
  The assignment \<open>current[key] = value\<close> in a class method, which is strict code: a
  TypeError on \<open>null\<close>, \<open>undefined\<close> and on a primitive. On an object it sets the key, own
  from then on, unless the key is \<open>__proto__\<close> and not yet the object's own.
\<close>

fun assign_st :: "store \<Rightarrow> hval \<Rightarrow> string \<Rightarrow> hval \<Rightarrow> error + store" where
  "assign_st st (HRef a) k v =
     (if k = ''__proto__'' \<and> k \<notin> fst ` set (fields_at st a) then Inl BuiltinObject
      else Inr (write_field st a k v))"
| "assign_st st HPrototype k v = Inl BuiltinObject"
| "assign_st st (HFunction f) k v = Inl BuiltinObject"
| "assign_st st current k v = Inl TypeError"

text \<open>
  \<open>interpolateValue\<close> in a store. The result object is allocated empty and filled key by
  key; a key that only \<open>from\<close> has receives \<open>from\<close>'s value itself, a reference included.
  The recursion follows references, so it needs the stack: \<open>stack\<close> is how many nested
  calls the runtime allows, beyond which it raises a RangeError (as it does on a cyclic
  object). The store is returned as the call leaves it, also when it raises.
\<close>

fun interpolateValue_st :: "nat \<Rightarrow> store \<Rightarrow> hval \<Rightarrow> hval \<Rightarrow> rat \<Rightarrow> store \<times> (error + hval)"
  and interpolateFields_st ::
    "nat \<Rightarrow> store \<Rightarrow> nat \<Rightarrow> (string \<times> hval) list \<Rightarrow> hval \<Rightarrow> rat \<Rightarrow> store \<times> error option"
where
  "interpolateValue_st 0 st from to progress = (st, Inl RangeError)"
| "interpolateValue_st (Suc stack) st from to progress =
     (case (from, to) of
        (HNum a, HNum b) \<Rightarrow> (st, Inr (HNum (interpolate progress a b)))
      | _ \<Rightarrow>
          if typeof_h from = TObject \<and> typeof_h to = TObject then
            (case interpolateFields_st stack (allocate st []) (length (st_objects st))
                    (case from of HRef a \<Rightarrow> fields_at st a | _ \<Rightarrow> []) to progress of
               (st', Some e) \<Rightarrow> (st', Inl e)
             | (st', None) \<Rightarrow> (st', Inr (HRef (length (st_objects st)))))
          else (st, Inr (if progress < 1 / 2 then from else to)))"
| "interpolateFields_st stack st result [] to progress = (st, None)"
| "interpolateFields_st stack st result ((key, v) # rest) to progress =
     (case has_key_st st key to of
        Inl e \<Rightarrow> (st, Some e)
      | Inr True \<Rightarrow>
          (case interpolateValue_st stack st v (get_prop_st st to key) progress of
             (st1, Inl e) \<Rightarrow> (st1, Some e)
           | (st1, Inr r) \<Rightarrow>
               (case assign_st st1 (HRef result) key r of
                  Inl e \<Rightarrow> (st1, Some e)
                | Inr st2 \<Rightarrow> interpolateFields_st stack st2 result rest to progress))
      | Inr False \<Rightarrow>
          (case assign_st st (HRef result) key v of
             Inl e \<Rightarrow> (st, Some e)
           | Inr st2 \<Rightarrow> interpolateFields_st stack st2 result rest to progress))"

fun interpolateKeyframes_st ::
  "nat \<Rightarrow> (easing_type \<Rightarrow> rat \<Rightarrow> rat) \<Rightarrow> easing_type \<Rightarrow> store \<Rightarrow> hval keyframe_of list \<Rightarrow> rat
     \<Rightarrow> store \<times> (error + hval)"
where
  "interpolateKeyframes_st stack curve easing st (current # next # rest) frame =
     (if frame \<ge> kf_frame current \<and> frame \<le> kf_frame next then
        (let progress = (frame - kf_frame current) / (kf_frame next - kf_frame current);
             easedProgress =
               applyEasing curve progress
                 (case kf_easing next of Some e \<Rightarrow> e | None \<Rightarrow> easing)
         in interpolateValue_st stack st (kf_value current) (kf_value next) easedProgress)
      else interpolateKeyframes_st stack curve easing st (next # rest) frame)"
| "interpolateKeyframes_st stack curve easing st keyframes frame = (st, Inr HUndefined)"

text \<open>
  \<open>calculateAnimationValue\<close> in a store: the animation holds the address of its keyframe
  array, which \<open>sort\<close> leaves sorted in the store. A keyframe's value is returned as it is,
  so a reference returned is a reference to the keyframe's own object.
\<close>

definition calculateAnimationValue_st ::
  "nat \<Rightarrow> (easing_type \<Rightarrow> rat \<Rightarrow> rat) \<Rightarrow> store \<Rightarrow> nat animation_of \<Rightarrow> rat
     \<Rightarrow> store \<times> (error + hval)"
where
  "calculateAnimationValue_st stack curve st animation frame =
     (if keyframes_at st (an_keyframes animation) = [] then (st, Inr HUndefined)
      else
        let adjustedFrame = frame - an_delay animation in
        if adjustedFrame < 0 then (st, Inr HUndefined)
        else
          let cur = currentFrame animation adjustedFrame;
              keyframes = sort_key kf_frame (keyframes_at st (an_keyframes animation));
              st1 = write_keyframes st (an_keyframes animation) keyframes
          in
            if cur \<le> kf_frame (hd keyframes) then (st1, Inr (kf_value (hd keyframes)))
            else if cur \<ge> kf_frame (last keyframes)
            then (st1, Inr (kf_value (last keyframes)))
            else interpolateKeyframes_st stack curve (an_easing animation) st1 keyframes cur)"

text \<open>
  The walk of \<open>setNestedProperty\<close> along the keys: a missing intermediate key is created
  as \<open>{}\<close>, the walk goes into \<open>current[key]\<close>, whoever else refers to that object, and
  the last key is assigned there. \<open>key in current\<close> raises on anything that is not an
  object. An empty key list does not occur (\<open>keys[-1]\<close> would be \<open>undefined\<close>, the key
  \<open>'undefined'\<close>). \<open>None\<close> is the normal end, \<open>Some\<close> the exception.
\<close>

fun set_keys_st :: "store \<Rightarrow> hval \<Rightarrow> string list \<Rightarrow> hval \<Rightarrow> store \<times> error option" where
  "set_keys_st st current [] v =
     (case assign_st st current ''undefined'' v of
        Inl e \<Rightarrow> (st, Some e)
      | Inr st' \<Rightarrow> (st', None))"
| "set_keys_st st current [k] v =
     (case assign_st st current k v of
        Inl e \<Rightarrow> (st, Some e)
      | Inr st' \<Rightarrow> (st', None))"
| "set_keys_st st current (k # k' # ks) v =
     (case has_key_st st k current of
        Inl e \<Rightarrow> (st, Some e)
      | Inr True \<Rightarrow> set_keys_st st (get_prop_st st current k) (k' # ks) v
      | Inr False \<Rightarrow>
          (case assign_st (allocate st []) current k (HRef (length (st_objects st))) of
             Inl e \<Rightarrow> (allocate st [], Some e)
           | Inr st' \<Rightarrow> set_keys_st st' (HRef (length (st_objects st))) (k' # ks) v))"

definition setNestedProperty_st ::
  "store \<Rightarrow> hval \<Rightarrow> string \<Rightarrow> hval \<Rightarrow> store \<times> error option"
where
  "setNestedProperty_st st obj path v = set_keys_st st obj (split_dot path) v"

text \<open>
  Effects and elements, with the fields the evaluator, the composer and the effect
  library read. An effect's type is kept as the string it is at run time: the composer
  compares it with \<open>'blend'\<close> and \<open>'mask'\<close>, which the declared union does not list. The
  parameters of an effect are never written to; they are the field list of an object. An
  element holds the address of its property bag, and each of its animations the address
  of its keyframe array. The element's own fields are written by none of the code
  embedded here.
\<close>

record effect =
  ef_type :: string
  ef_enabled :: bool
  ef_parameters :: "(string \<times> val) list"
  ef_startFrame :: "rat option"
  ef_endFrame :: "rat option"

record element =
  el_id :: string
  el_startFrame :: rat
  el_endFrame :: rat
  el_layer :: rat
  el_visible :: bool
  el_locked :: bool
  el_properties :: nat
  el_animations :: "nat animation_of list"
  el_effects :: "effect list"

text \<open>
  The \<open>forEach\<close> of \<open>calculateElementPropertiesAtFrame\<close> over the animations, writing
  into the copy \<open>properties\<close>; an exception ends it.
\<close>

fun applyAnimations_st ::
  "nat \<Rightarrow> (easing_type \<Rightarrow> rat \<Rightarrow> rat) \<Rightarrow> store \<Rightarrow> hval \<Rightarrow> nat animation_of list \<Rightarrow> rat
     \<Rightarrow> store \<times> error option"
where
  "applyAnimations_st stack curve st properties [] frame = (st, None)"
| "applyAnimations_st stack curve st properties (animation # rest) frame =
     (case calculateAnimationValue_st stack curve st animation frame of
        (st1, Inl e) \<Rightarrow> (st1, Some e)
      | (st1, Inr animatedValue) \<Rightarrow>
          (case (if animatedValue \<noteq> HUndefined
                 then setNestedProperty_st st1 properties (an_property animation) animatedValue
                 else (st1, None)) of
             (st2, Some e) \<Rightarrow> (st2, Some e)
           | (st2, None) \<Rightarrow> applyAnimations_st stack curve st2 properties rest frame))"

text \<open>
  \<open>calculateElementPropertiesAtFrame\<close>. \<open>{ ...element.properties }\<close> allocates a new
  object with the bag's fields: the values are copied, so a nested object is shared by the
  bag and the copy. The result is the store as the call leaves it and the reference to
  the copy, or the exception.
\<close>

definition calculateElementPropertiesAtFrame_st ::
  "nat \<Rightarrow> (easing_type \<Rightarrow> rat \<Rightarrow> rat) \<Rightarrow> store \<Rightarrow> element \<Rightarrow> rat \<Rightarrow> store \<times> (error + hval)"
where
  "calculateElementPropertiesAtFrame_st stack curve st element frame =
     (let properties = HRef (length (st_objects st));
          st1 = allocate st (fields_at st (el_properties element))
      in
        case applyAnimations_st stack curve st1 properties (el_animations element) frame of
          (st2, Some e) \<Rightarrow> (st2, Inl e)
        | (st2, None) \<Rightarrow> (st2, Inr properties))"

text \<open>
  What a value looks like from outside: the tree that following its references gives, to
  a depth.
\<close>

fun snapshot :: "nat \<Rightarrow> store \<Rightarrow> hval \<Rightarrow> val" where
  "snapshot depth st HUndefined = VUndefined"
| "snapshot depth st HNull = VNull"
| "snapshot depth st (HBool b) = VBool b"
| "snapshot depth st (HNum n) = VNum n"
| "snapshot depth st (HStr s) = VStr s"
| "snapshot depth st (HFunction f) = VFunction f"
| "snapshot depth st HPrototype = VPrototype"
| "snapshot 0 st (HRef a) = VObj []"
| "snapshot (Suc depth) st (HRef a) =
     VObj (map (\<lambda>kv. (fst kv, snapshot depth st (snd kv))) (fields_at st a))"

section \<open>Scene composer (effects.ts, SceneComposer)\<close>

datatype direction = DirIn | DirOut | DirCross

datatype transition_type =
    Fade | Slide | Zoom | Wipe | Morph | Dissolve | Push | Reveal | Iris | Flip

record transition =
  tr_type :: transition_type
  tr_duration :: rat
  tr_easing :: easing_type
  tr_direction :: "direction option"
  tr_parameters :: "(string \<times> val) list"

record scene =
  sc_id :: string
  sc_startFrame :: rat
  sc_endFrame :: rat
  sc_duration :: rat
  sc_elements :: "element list"
  sc_transitions :: "transition list"

record project =
  pj_duration :: rat
  pj_fps :: rat
  pj_width :: rat
  pj_height :: rat
  pj_scenes :: "scene list"

record mask_settings =
  mk_type :: val
  mk_inverted :: val
  mk_feather :: val
  mk_expansion :: val
  mk_path :: val

text \<open>A layer holds its element and the reference to the computed copy of its bag.\<close>

record composition_layer =
  ly_element :: element
  ly_computedProperties :: hval
  ly_visible :: bool
  ly_blendMode :: val
  ly_mask :: "mask_settings option"

text \<open>
  The progress of an active transition is a quotient; \<open>None\<close> stands for the NaN that
  \<open>0 / 0\<close> is when the duration is zero.
\<close>

record active_transition =
  at_transition :: transition
  at_progress :: "rat option"
  at_startFrame :: rat
  at_endFrame :: rat
  at_fromScene :: "scene option"
  at_toScene :: "scene option"

record composition =
  cp_scene :: scene
  cp_layers :: "composition_layer list"
  cp_activeTransitions :: "active_transition list"
  cp_frame :: rat
  cp_timestamp :: rat

text \<open>Truthiness, for \<open>a || b\<close> and \<open>c ? x : y\<close>.\<close>

fun truthy :: "val \<Rightarrow> bool" where
  "truthy VUndefined = False"
| "truthy VNull = False"
| "truthy (VBool b) = b"
| "truthy (VNum n) = (n \<noteq> 0)"
| "truthy (VStr s) = (s \<noteq> [])"
| "truthy (VFunction f) = True"
| "truthy VPrototype = True"
| "truthy (VObj fs) = True"

definition js_or :: "val \<Rightarrow> val \<Rightarrow> val" where
  "js_or a b = (if truthy a then a else b)"

text \<open>
  The conversion of an operand to a number. \<open>undefined\<close> converts to NaN, for which
  \<open>None\<close> stands, \<open>null\<close> to 0, a boolean to 0 or 1. The conversion of strings and objects
  belongs to the JavaScript runtime and is the parameter \<open>toNumber\<close>.
\<close>

fun to_number :: "(val \<Rightarrow> rat option) \<Rightarrow> val \<Rightarrow> rat option" where
  "to_number toNumber (VNum n) = Some n"
| "to_number toNumber VUndefined = None"
| "to_number toNumber VNull = Some 0"
| "to_number toNumber (VBool b) = Some (if b then 1 else 0)"
| "to_number toNumber v = toNumber v"

text \<open>
  The same conversion in a store, for \<open>properties.opacity <= 0\<close>. A string is converted by
  the runtime. An object is first turned into a primitive: its \<open>valueOf\<close> is called if it
  is a function, then its \<open>toString\<close>. The \<open>valueOf\<close> that a plain object inherits returns
  the object itself, and the inherited \<open>toString\<close> returns \<open>'[object Object]'\<close>, which
  converts to NaN; an object that holds something else than a function under both names
  cannot be converted, which is a TypeError. A built-in function and \<open>Object.prototype\<close>
  convert to NaN as well. Every comparison with NaN is false.
\<close>

fun to_number_st :: "(val \<Rightarrow> rat option) \<Rightarrow> store \<Rightarrow> hval \<Rightarrow> error + rat option" where
  "to_number_st toNumber st (HNum n) = Inr (Some n)"
| "to_number_st toNumber st HUndefined = Inr None"
| "to_number_st toNumber st HNull = Inr (Some 0)"
| "to_number_st toNumber st (HBool b) = Inr (Some (if b then 1 else 0))"
| "to_number_st toNumber st (HStr s) = Inr (toNumber (VStr s))"
| "to_number_st toNumber st (HFunction f) = Inr None"
| "to_number_st toNumber st HPrototype = Inr None"
| "to_number_st toNumber st (HRef a) =
     (case map_of (fields_at st a) ''valueOf'' of
        Some (HFunction f) \<Rightarrow> Inl BuiltinObject
      | _ \<Rightarrow>
          (case map_of (fields_at st a) ''toString'' of
             None \<Rightarrow> Inr None
           | Some (HFunction f) \<Rightarrow> Inl BuiltinObject
           | Some v \<Rightarrow> Inl TypeError))"

definition le_zero_st :: "(val \<Rightarrow> rat option) \<Rightarrow> store \<Rightarrow> hval \<Rightarrow> error + bool" where
  "le_zero_st toNumber st v =
     (case to_number_st toNumber st v of
        Inl e \<Rightarrow> Inl e
      | Inr (Some n) \<Rightarrow> Inr (n \<le> 0)
      | Inr None \<Rightarrow> Inr False)"

text \<open>
  \<open>isElementVisible\<close>. It evaluates the element's properties once more, on the store as
  the evaluation by \<open>createComposition\<close> has left it.
\<close>

definition isElementVisible ::
  "nat \<Rightarrow> (easing_type \<Rightarrow> rat \<Rightarrow> rat) \<Rightarrow> (val \<Rightarrow> rat option) \<Rightarrow> store \<Rightarrow> element \<Rightarrow> rat
     \<Rightarrow> store \<times> (error + bool)"
where
  "isElementVisible stack curve toNumber st element frame =
     (if frame < el_startFrame element \<or> frame > el_endFrame element then (st, Inr False)
      else
        (case calculateElementPropertiesAtFrame_st stack curve st element frame of
           (st1, Inl e) \<Rightarrow> (st1, Inl e)
         | (st1, Inr properties) \<Rightarrow>
             (case le_zero_st toNumber st1 (get_prop_st st1 properties ''opacity'') of
                Inl e \<Rightarrow> (st1, Inl e)
              | Inr transparent \<Rightarrow>
                  if transparent then (st1, Inr False)
                  else if el_locked element then (st1, Inr False)
                  else (st1, Inr (el_visible element)))))"

definition getElementBlendMode :: "element \<Rightarrow> val" where
  "getElementBlendMode element =
     (case find (\<lambda>effect. ef_type effect = ''blend'') (el_effects element) of
        Some blendEffect \<Rightarrow>
          if ef_enabled blendEffect
          then js_or (get_prop (VObj (ef_parameters blendEffect)) ''mode'') (VStr ''normal'')
          else VStr ''normal''
      | None \<Rightarrow> VStr ''normal'')"

definition getElementMask :: "element \<Rightarrow> rat \<Rightarrow> mask_settings option" where
  "getElementMask element frame =
     (case find (\<lambda>effect. ef_type effect = ''mask'') (el_effects element) of
        None \<Rightarrow> None
      | Some maskEffect \<Rightarrow>
          if \<not> ef_enabled maskEffect then None
          else
            (let parameters = VObj (ef_parameters maskEffect) in
             Some \<lparr>mk_type = js_or (get_prop parameters ''type'') (VStr ''alpha''),
                   mk_inverted = js_or (get_prop parameters ''inverted'') (VBool False),
                   mk_feather = js_or (get_prop parameters ''feather'') (VNum 0),
                   mk_expansion = js_or (get_prop parameters ''expansion'') (VNum 0),
                   mk_path = get_prop parameters ''path''\<rparr>))"

definition getTransitionStartFrame :: "transition \<Rightarrow> scene \<Rightarrow> rat" where
  "getTransitionStartFrame transition scene =
     (if tr_direction transition = Some DirIn then sc_startFrame scene
      else if tr_direction transition = Some DirOut
      then sc_endFrame scene - tr_duration transition
      else sc_startFrame scene + (sc_duration scene - tr_duration transition) / 2)"

text \<open>\<open>Array.prototype.findIndex\<close>: the first index that satisfies the test, or \<open>-1\<close>.\<close>

fun findIndex :: "('a \<Rightarrow> bool) \<Rightarrow> 'a list \<Rightarrow> int" where
  "findIndex P [] = -1"
| "findIndex P (x # xs) =
     (if P x then 0 else (let i = findIndex P xs in if i < 0 then -1 else i + 1))"

text \<open>
  \<open>getPreviousScene\<close> and \<open>getNextScene\<close> read the project loaded in the engine, if any.
  The indices they read are in range: \<open>currentIndex - 1\<close> when \<open>currentIndex > 0\<close>, and
  \<open>currentIndex + 1\<close> when \<open>currentIndex < length - 1\<close> (which holds for the \<open>-1\<close> of a scene
  that is not in a non-empty project, and then reads index 0).
\<close>

definition getPreviousScene :: "project option \<Rightarrow> scene \<Rightarrow> scene option" where
  "getPreviousScene loaded currentScene =
     (case loaded of
        None \<Rightarrow> None
      | Some project \<Rightarrow>
          (let currentIndex = findIndex (\<lambda>scene. sc_id scene = sc_id currentScene) (pj_scenes project)
           in if currentIndex > 0 then Some (pj_scenes project ! nat (currentIndex - 1)) else None))"

definition getNextScene :: "project option \<Rightarrow> scene \<Rightarrow> scene option" where
  "getNextScene loaded currentScene =
     (case loaded of
        None \<Rightarrow> None
      | Some project \<Rightarrow>
          (let currentIndex = findIndex (\<lambda>scene. sc_id scene = sc_id currentScene) (pj_scenes project)
           in if currentIndex < int (length (pj_scenes project)) - 1
              then Some (pj_scenes project ! nat (currentIndex + 1)) else None))"

text \<open>The quotient \<open>a / b\<close> where it is a finite number.\<close>

definition js_div :: "rat \<Rightarrow> rat \<Rightarrow> rat option" where
  "js_div a b = (if b = 0 then None else Some (a / b))"

fun calculateActiveTransitions ::
  "project option \<Rightarrow> scene \<Rightarrow> rat \<Rightarrow> transition list \<Rightarrow> active_transition list"
where
  "calculateActiveTransitions loaded scene frame [] = []"
| "calculateActiveTransitions loaded scene frame (transition # rest) =
     (let startFrame = getTransitionStartFrame transition scene;
          endFrame = startFrame + tr_duration transition
      in
        if frame \<ge> startFrame \<and> frame \<le> endFrame then
          \<lparr>at_transition = transition,
           at_progress = js_div (frame - startFrame) (tr_duration transition),
           at_startFrame = startFrame,
           at_endFrame = endFrame,
           at_fromScene = getPreviousScene loaded scene,
           at_toScene = getNextScene loaded scene\<rparr>
          # calculateActiveTransitions loaded scene frame rest
        else calculateActiveTransitions loaded scene frame rest)"

text \<open>
  The \<open>map\<close> of \<open>createComposition\<close> over the active elements, one after the other on the
  same store: for each, the evaluation of its properties, then \<open>isElementVisible\<close> with
  its second evaluation, then the blend mode and the mask. An exception ends the map.
\<close>

fun createLayers ::
  "nat \<Rightarrow> (easing_type \<Rightarrow> rat \<Rightarrow> rat) \<Rightarrow> (val \<Rightarrow> rat option) \<Rightarrow> store \<Rightarrow> rat \<Rightarrow> element list
     \<Rightarrow> store \<times> (error + composition_layer list)"
where
  "createLayers stack curve toNumber st frame [] = (st, Inr [])"
| "createLayers stack curve toNumber st frame (element # rest) =
     (case calculateElementPropertiesAtFrame_st stack curve st element frame of
        (st1, Inl e) \<Rightarrow> (st1, Inl e)
      | (st1, Inr computedProperties) \<Rightarrow>
          (case isElementVisible stack curve toNumber st1 element frame of
             (st2, Inl e) \<Rightarrow> (st2, Inl e)
           | (st2, Inr visible) \<Rightarrow>
               (case createLayers stack curve toNumber st2 frame rest of
                  (st3, Inl e) \<Rightarrow> (st3, Inl e)
                | (st3, Inr layers) \<Rightarrow>
                    (st3, Inr (\<lparr>ly_element = element,
                                ly_computedProperties = computedProperties,
                                ly_visible = visible,
                                ly_blendMode = getElementBlendMode element,
                                ly_mask = getElementMask element frame\<rparr> # layers)))))"

text \<open>
  \<open>createComposition\<close>. \<open>filter\<close> builds a new array, which \<open>sort\<close> then orders by
  \<open>a.layer - b.layer\<close>; the sort is stable. The clock \<open>Date.now()\<close> is the parameter \<open>now\<close>.
\<close>

definition createComposition ::
  "nat \<Rightarrow> (easing_type \<Rightarrow> rat \<Rightarrow> rat) \<Rightarrow> (val \<Rightarrow> rat option) \<Rightarrow> project option \<Rightarrow> rat
     \<Rightarrow> store \<Rightarrow> scene \<Rightarrow> rat \<Rightarrow> store \<times> (error + composition)"
where
  "createComposition stack curve toNumber loaded now st scene frame =
     (let activeElements =
            filter (\<lambda>element. frame \<ge> el_startFrame element \<and> frame \<le> el_endFrame element
                                \<and> el_visible element)
              (sc_elements scene);
          sorted = sort_key el_layer activeElements
      in
        case createLayers stack curve toNumber st frame sorted of
          (st', Inl e) \<Rightarrow> (st', Inl e)
        | (st', Inr layers) \<Rightarrow>
            (st', Inr \<lparr>cp_scene = scene,
                       cp_layers = layers,
                       cp_activeTransitions =
                         calculateActiveTransitions loaded scene frame (sc_transitions scene),
                       cp_frame = frame,
                       cp_timestamp = now\<rparr>))"

text \<open>
  Inputs on which the composition is known to return. Every keyframe value of the store is
  a number; an animated path is one key, and not \<open>__proto__\<close>; the property bag of an
  element is an object of the store, and the opacity it holds, if any, is not an object.
\<close>

definition numeric_keyframes :: "store \<Rightarrow> bool" where
  "numeric_keyframes st =
     list_all (list_all (\<lambda>keyframe. typeof_h (kf_value keyframe) = TNumber)) (st_keyframes st)"

definition top_level :: "string \<Rightarrow> bool" where
  "top_level path = (CHR ''.'' \<notin> set path \<and> path \<noteq> ''__proto__'')"

definition plain_element :: "store \<Rightarrow> element \<Rightarrow> bool" where
  "plain_element st element =
     (el_properties element < length (st_objects st)
      \<and> typeof_h (get_prop_st st (HRef (el_properties element)) ''opacity'') \<noteq> TObject
      \<and> list_all (\<lambda>animation. top_level (an_property animation)) (el_animations element))"

section \<open>Transition system (effects.ts, TransitionSystem)\<close>

text \<open>
  Reading a property: a TypeError on \<open>null\<close> and \<open>undefined\<close>, \<open>undefined\<close> on a primitive
  (the names read here, \<open>opacity\<close> and \<open>filter\<close>, are none that a primitive has).
\<close>

fun member :: "val \<Rightarrow> string \<Rightarrow> error + val" where
  "member VUndefined k = Inl TypeError"
| "member VNull k = Inl TypeError"
| "member v k = Inr (get_prop v k)"

text \<open>The product \<open>v * b\<close> with a number \<open>b\<close>.\<close>

definition times :: "(val \<Rightarrow> rat option) \<Rightarrow> val \<Rightarrow> rat \<Rightarrow> error + val" where
  "times toNumber v b =
     (case to_number toNumber v of Some a \<Rightarrow> Inr (VNum (a * b)) | None \<Rightarrow> Inl NotANumber)"

text \<open>Decimal digits of an index, for the keys of a spread string.\<close>

fun show_nat :: "nat \<Rightarrow> string" where
  "show_nat n =
     (if n < 10 then [char_of (48 + n)] else show_nat (n div 10) @ [char_of (48 + n mod 10)])"

declare show_nat.simps [simp del]

text \<open>
  The own enumerable properties that \<open>{...v}\<close> copies: the fields of an object, the
  characters of a string under their indices, nothing for any other value.
\<close>

fun spread :: "val \<Rightarrow> (string \<times> val) list" where
  "spread (VObj fs) = fs"
| "spread (VStr s) = map (\<lambda>i. (show_nat i, VStr [s ! i])) [0..<length s]"
| "spread v = []"

text \<open>\<open>{...a, ...b}\<close> on two field lists.\<close>

definition merge :: "(string \<times> val) list \<Rightarrow> (string \<times> val) list \<Rightarrow> (string \<times> val) list" where
  "merge a b = fold (\<lambda>kv acc. set_field acc (fst kv) (snd kv)) b a"

text \<open>
  A \<open>TransitionEffect\<close>: its \<open>apply\<close> function (progress, outgoing element, incoming
  element, parameters) and its default parameters.
\<close>

record transition_effect =
  te_apply :: "rat \<Rightarrow> val \<Rightarrow> val \<Rightarrow> (string \<times> val) list \<Rightarrow> error + val"
  te_defaultParams :: "(string \<times> val) list"

text \<open>
  The \<open>fade\<close> entry that \<open>initializeEffects\<close> registers. The object literal for \<open>from\<close> is
  evaluated before the one for \<open>to\<close>.
\<close>

definition fade_apply ::
  "(val \<Rightarrow> rat option) \<Rightarrow> rat \<Rightarrow> val \<Rightarrow> val \<Rightarrow> (string \<times> val) list \<Rightarrow> error + val"
where
  "fade_apply toNumber progress fromElement toElement params =
     (let fadeOut = 1 - progress;
          fadeIn = progress
      in
        case member fromElement ''opacity'' of
          Inl e \<Rightarrow> Inl e
        | Inr fromOpacity \<Rightarrow>
        case times toNumber fromOpacity fadeOut of
          Inl e \<Rightarrow> Inl e
        | Inr fromFaded \<Rightarrow>
        case member toElement ''opacity'' of
          Inl e \<Rightarrow> Inl e
        | Inr toOpacity \<Rightarrow>
        case times toNumber toOpacity fadeIn of
          Inl e \<Rightarrow> Inl e
        | Inr toFaded \<Rightarrow>
            Inr (VObj [(''from'', VObj (set_field (spread fromElement) ''opacity'' fromFaded)),
                       (''to'', VObj (set_field (spread toElement) ''opacity'' toFaded))]))"

definition fade_effect :: "(val \<Rightarrow> rat option) \<Rightarrow> transition_effect" where
  "fade_effect toNumber =
     \<lparr>te_apply = fade_apply toNumber, te_defaultParams = [(''crossFade'', VBool True)]\<rparr>"

text \<open>
  \<open>applyTransition\<close>, over the registry \<open>this.effects\<close> of the transition system. An unknown
  type is logged and leaves both elements as they are. The private \<open>applyEasing\<close> of the
  transition system has the same text as the engine's.
\<close>

definition applyTransition ::
  "(transition_type \<Rightarrow> transition_effect option) \<Rightarrow> (easing_type \<Rightarrow> rat \<Rightarrow> rat)
     \<Rightarrow> transition \<Rightarrow> rat \<Rightarrow> val \<Rightarrow> val \<Rightarrow> error + val"
where
  "applyTransition effects curve transition progress fromElement toElement =
     (case effects (tr_type transition) of
        None \<Rightarrow> Inr (VObj [(''from'', fromElement), (''to'', toElement)])
      | Some effect \<Rightarrow>
          (let easedProgress = applyEasing curve progress (tr_easing transition);
               params = merge (te_defaultParams effect) (tr_parameters transition)
           in te_apply effect easedProgress fromElement toElement params))"

section \<open>Effect library (effects.ts, EffectLibrary)\<close>

datatype parameter_type = PNumber | PBoolean | PColor | PSelect | PRange

text \<open>
  \<open>EffectParameter\<close> and \<open>EffectDefinition\<close>, with the fields that validation and
  application read: the declared parameters with their optional bounds and options, and
  the \<open>apply\<close> function (element, parameters, frame).
\<close>

record effect_parameter =
  ep_name :: string
  ep_type :: parameter_type
  ep_defaultValue :: val
  ep_min :: "rat option"
  ep_max :: "rat option"
  ep_options :: "string list option"

record effect_definition =
  ed_parameters :: "effect_parameter list"
  ed_apply :: "val \<Rightarrow> (string \<times> val) list \<Rightarrow> rat \<Rightarrow> error + val"

text \<open>\<open>options.join(', ')\<close>.\<close>

fun join_comma :: "string list \<Rightarrow> string" where
  "join_comma [] = []"
| "join_comma [s] = s"
| "join_comma (s # t # rest) = s @ '', '' @ join_comma (t # rest)"

text \<open>
  The body of the \<open>forEach\<close> of \<open>validateEffect\<close> for one declared parameter: the messages
  it pushes. \<open>options.includes(value)\<close> holds for a string that is one of the options.
  The printing of a number inside a message belongs to the runtime and is the parameter
  \<open>numberToString\<close>.
\<close>

definition validateParameter ::
  "(rat \<Rightarrow> string) \<Rightarrow> (string \<times> val) list \<Rightarrow> effect_parameter \<Rightarrow> string list"
where
  "validateParameter numberToString parameters paramDef =
     (let v = get_prop (VObj parameters) (ep_name paramDef) in
      if v = VUndefined \<or> v = VNull then [''Missing parameter: '' @ ep_name paramDef]
      else
        (if ep_type paramDef = PNumber \<or> ep_type paramDef = PRange then
           (case v of
              VNum n \<Rightarrow>
                (case ep_min paramDef of
                   Some lo \<Rightarrow>
                     if n < lo
                     then [''Parameter '' @ ep_name paramDef @ '' is below minimum value ''
                             @ numberToString lo]
                     else []
                 | None \<Rightarrow> [])
                @ (case ep_max paramDef of
                     Some hi \<Rightarrow>
                       if n > hi
                       then [''Parameter '' @ ep_name paramDef @ '' is above maximum value ''
                               @ numberToString hi]
                       else []
                   | None \<Rightarrow> [])
            | _ \<Rightarrow> [''Parameter '' @ ep_name paramDef @ '' must be a number''])
         else [])
        @ (if ep_type paramDef = PBoolean \<and> typeof v \<noteq> TBoolean
           then [''Parameter '' @ ep_name paramDef @ '' must be a boolean'']
           else [])
        @ (case ep_options paramDef of
             Some options \<Rightarrow>
               if ep_type paramDef = PSelect
                  \<and> \<not> (case v of VStr s \<Rightarrow> s \<in> set options | _ \<Rightarrow> False)
               then [''Parameter '' @ ep_name paramDef @ '' must be one of: ''
                       @ join_comma options]
               else []
           | None \<Rightarrow> []))"

text \<open>
  \<open>validateEffect\<close>, over the registry \<open>this.effects\<close> of the library: the pair of \<open>valid\<close>
  and \<open>errors\<close>.
\<close>

definition validateEffect ::
  "(string \<Rightarrow> effect_definition option) \<Rightarrow> (rat \<Rightarrow> string) \<Rightarrow> effect \<Rightarrow> bool \<times> string list"
where
  "validateEffect effects numberToString effect =
     (case effects (ef_type effect) of
        None \<Rightarrow> (False, [''Unknown effect type: '' @ ef_type effect])
      | Some definition \<Rightarrow>
          (let errors =
                 concat (map (validateParameter numberToString (ef_parameters effect))
                           (ed_parameters definition))
           in (errors = [], errors)))"

text \<open>
  \<open>applyEffect\<close>: an unknown type is logged and the element returned as it is; so is the
  element of a disabled effect or of one outside its frame window. Otherwise the
  definition's \<open>apply\<close> receives \<open>effect.parameters\<close>.
\<close>

definition applyEffect ::
  "(string \<Rightarrow> effect_definition option) \<Rightarrow> val \<Rightarrow> effect \<Rightarrow> rat \<Rightarrow> error + val"
where
  "applyEffect effects element effect frame =
     (case effects (ef_type effect) of
        None \<Rightarrow> Inr element
      | Some definition \<Rightarrow>
          if \<not> ef_enabled effect then Inr element
          else if (case ef_startFrame effect of Some s \<Rightarrow> frame < s | None \<Rightarrow> False)
          then Inr element
          else if (case ef_endFrame effect of Some e \<Rightarrow> frame > e | None \<Rightarrow> False)
          then Inr element
          else ed_apply definition element (ef_parameters effect) frame)"

text \<open>\<open>applyEffects\<close>: the \<open>reduce\<close> over the effects, from the element.\<close>

fun applyEffects ::
  "(string \<Rightarrow> effect_definition option) \<Rightarrow> val \<Rightarrow> effect list \<Rightarrow> rat \<Rightarrow> error + val"
where
  "applyEffects effects element [] frame = Inr element"
| "applyEffects effects element (effect # rest) frame =
     (case applyEffect effects element effect frame of
        Inl e \<Rightarrow> Inl e
      | Inr result \<Rightarrow> applyEffects effects result rest frame)"

text \<open>
  The \<open>noise\<close> entry that \<open>initializeEffects\<close> registers: its declared parameters, and its
  \<open>apply\<close>, which builds \<open>{...element, filter: {...element.filter, noise: {amount, scale,
  seed}}}\<close>.
\<close>

definition noise_apply :: "val \<Rightarrow> (string \<times> val) list \<Rightarrow> rat \<Rightarrow> error + val" where
  "noise_apply element params frame =
     (let seed = (if truthy (get_prop (VObj params) ''animated'') then VNum (frame * (1 / 10))
                  else VNum 0)
      in
        case member element ''filter'' of
          Inl e \<Rightarrow> Inl e
        | Inr elementFilter \<Rightarrow>
            Inr (VObj (set_field (spread element) ''filter''
                  (VObj (set_field (spread elementFilter) ''noise''
                     (VObj [(''amount'', get_prop (VObj params) ''amount''),
                            (''scale'', get_prop (VObj params) ''scale''),
                            (''seed'', seed)]))))))"

definition noise_definition :: effect_definition where
  "noise_definition =
     \<lparr>ed_parameters =
        [\<lparr>ep_name = ''amount'', ep_type = PRange, ep_defaultValue = VNum (1 / 10),
          ep_min = Some 0, ep_max = Some 1, ep_options = None\<rparr>,
         \<lparr>ep_name = ''scale'', ep_type = PRange, ep_defaultValue = VNum 1,
          ep_min = Some (1 / 10), ep_max = Some 10, ep_options = None\<rparr>,
         \<lparr>ep_name = ''animated'', ep_type = PBoolean, ep_defaultValue = VBool False,
          ep_min = None, ep_max = None, ep_options = None\<rparr>],
      ed_apply = noise_apply\<rparr>"

section \<open>Render job orchestrator (MotionRenderer)\<close>

subsection \<open>Jobs\<close>

datatype job_status = Pending | Processing | Completed | Failed

datatype render_stage = Initializing | Composing | Rendering | Encoding | Optimizing | Finalizing

text \<open>
  \<open>RenderOptions\<close> without its two callbacks, which belong to the caller; an absent
  \<open>preview\<close> is false. \<open>RenderJob\<close> as declared; times are clock readings.
\<close>

record render_options =
  ro_format :: string
  ro_quality :: string
  ro_resolution :: string
  ro_preview :: bool

record render_job =
  rj_id :: string
  rj_project :: project
  rj_options :: render_options
  rj_status :: job_status
  rj_progress :: rat
  rj_currentStage :: render_stage
  rj_startTime :: "rat option"
  rj_endTime :: "rat option"
  rj_outputUrl :: "string option"
  rj_error :: "string option"

definition updateJobStage :: "render_job \<Rightarrow> render_stage \<Rightarrow> render_job" where
  "updateJobStage job stage = job\<lparr>rj_currentStage := stage\<rparr>"

definition updateJobProgress :: "render_job \<Rightarrow> rat \<Rightarrow> render_job" where
  "updateJobProgress job progress = job\<lparr>rj_progress := min 100 (max 0 progress)\<rparr>"

subsection \<open>Composition cache and frames\<close>

text \<open>
  \<open>Map.prototype.set\<close> on a map kept in insertion order: an existing key keeps its place.
\<close>

fun map_set :: "('k \<times> 'v) list \<Rightarrow> 'k \<Rightarrow> 'v \<Rightarrow> ('k \<times> 'v) list" where
  "map_set [] k v = [(k, v)]"
| "map_set ((k', v') # m) k v = (if k' = k then (k, v) # m else (k', v') # map_set m k v)"

text \<open>
  The composer's cache. Its key is the string \<open>`${scene.id}-${frame}`\<close>; the pair of the
  id and the frame stands for it (the frames the renderer asks for are the non-negative
  multiples of the frame step, whose printed form has no hyphen).
\<close>

type_synonym composition_cache = "((string \<times> rat) \<times> composition) list"

definition maxCacheSize :: nat where
  "maxCacheSize = 100"

definition cacheComposition ::
  "composition_cache \<Rightarrow> string \<times> rat \<Rightarrow> composition \<Rightarrow> composition_cache"
where
  "cacheComposition cache key composition =
     map_set (if length cache \<ge> maxCacheSize then tl cache else cache) key composition"

text \<open>
  \<open>composeScene\<close>: the store and the cache as the call leaves them, and the composition
  or the exception. A composition found in the cache is returned without any evaluation.
\<close>

definition composeScene ::
  "nat \<Rightarrow> (easing_type \<Rightarrow> rat \<Rightarrow> rat) \<Rightarrow> (val \<Rightarrow> rat option) \<Rightarrow> project option \<Rightarrow> rat
     \<Rightarrow> store \<Rightarrow> composition_cache \<Rightarrow> scene \<Rightarrow> rat
     \<Rightarrow> store \<times> composition_cache \<times> (error + composition)"
where
  "composeScene stack curve toNumber loaded now st cache scene frame =
     (case map_of cache (sc_id scene, frame) of
        Some cached \<Rightarrow> (st, cache, Inr cached)
      | None \<Rightarrow>
          (case createComposition stack curve toNumber loaded now st scene frame of
             (st', Inl e) \<Rightarrow> (st', cache, Inl e)
           | (st', Inr composition) \<Rightarrow>
               (st', cacheComposition cache (sc_id scene, frame) composition,
                Inr composition)))"

definition findActiveScene :: "project \<Rightarrow> rat \<Rightarrow> scene option" where
  "findActiveScene project frame =
     find (\<lambda>scene. frame \<ge> sc_startFrame scene \<and> frame \<le> sc_endFrame scene) (pj_scenes project)"

definition generatePlaceholderFrame :: string where
  "generatePlaceholderFrame =
     ''iVBORw0KGgoAAAANSUhEUgAAAAEAAAABCAYAAAAfFcSJAAAADUlEQVR42mNkYPhfDwAChwGA60e6kgAAAABJRU5ErkJggg==''"

text \<open>
  \<open>renderFrame\<close>, up to its own \<open>await\<close>: the store and the cache as the call leaves
  them, and the frame data its promise resolves to or the exception it rejects with.
  \<open>renderComposition\<close> and \<open>createBlankFrame\<close> both return the placeholder.
\<close>

definition renderFrame ::
  "nat \<Rightarrow> (easing_type \<Rightarrow> rat \<Rightarrow> rat) \<Rightarrow> (val \<Rightarrow> rat option) \<Rightarrow> project option \<Rightarrow> rat
     \<Rightarrow> store \<Rightarrow> composition_cache \<Rightarrow> project \<Rightarrow> rat
     \<Rightarrow> store \<times> composition_cache \<times> (error + string)"
where
  "renderFrame stack curve toNumber loaded now st cache project frame =
     (case findActiveScene project frame of
        None \<Rightarrow> (st, cache, Inr (''data:image/png;base64,'' @ generatePlaceholderFrame))
      | Some activeScene \<Rightarrow>
          (case composeScene stack curve toNumber loaded now st cache activeScene frame of
             (st', cache', Inl e) \<Rightarrow> (st', cache', Inl e)
           | (st', cache', Inr composition) \<Rightarrow>
               (st', cache', Inr (''data:image/png;base64,'' @ generatePlaceholderFrame))))"

subsection \<open>The preview loop\<close>

text \<open>
  \<open>previewFrames\<close> and \<open>frameStep\<close> of \<open>renderPreview\<close>. For a duration of 0 the quotient
  is \<open>0 / 0\<close>, and \<open>Math.max(1, NaN)\<close> is NaN: \<open>None\<close>.
\<close>

definition frameStep :: "rat \<Rightarrow> rat option" where
  "frameStep duration =
     (let previewFrames = min duration 150 in
      if previewFrames = 0 then None
      else Some (max 1 (of_int \<lfloor>duration / previewFrames\<rfloor>)))"

lemma frameStep_positive: "frameStep duration = Some step \<Longrightarrow> 1 \<le> step"
  by (auto simp: frameStep_def Let_def split: if_splits)

text \<open>
  The frames that the loop \<open>for (frame = 0; frame < duration; frame += frameStep)\<close> of
  \<open>renderPreview\<close> visits from \<open>frame\<close> on, each of which is composed once. A NaN step
  would end the loop after one more frame.
\<close>

function previewLoop :: "rat \<Rightarrow> rat \<Rightarrow> rat list" where
  "previewLoop duration frame =
     (if frame < duration then
        (case frameStep duration of
           Some stride \<Rightarrow> frame # previewLoop duration (frame + stride)
         | None \<Rightarrow> [frame])
      else [])"
  by pat_completeness auto
termination
proof (relation "measure (\<lambda>(duration, frame). nat \<lceil>duration - frame\<rceil>)")
  show "wf (measure (\<lambda>(duration, frame). nat \<lceil>duration - frame\<rceil>))" by simp
next
  fix duration frame step :: rat
  assume lt: "frame < duration" and st: "frameStep duration = Some step"
  from frameStep_positive[OF st] have "duration - (frame + step) \<le> duration - frame - 1"
    by simp
  then have "\<lceil>duration - (frame + step)\<rceil> \<le> \<lceil>duration - frame - 1\<rceil>"
    by (rule ceiling_mono)
  also have "\<dots> = \<lceil>duration - frame\<rceil> - 1" by simp
  finally have "\<lceil>duration - (frame + step)\<rceil> < \<lceil>duration - frame\<rceil>" by simp
  moreover from lt have "0 < \<lceil>duration - frame\<rceil>" by simp
  ultimately show "((duration, frame + step), (duration, frame))
      \<in> measure (\<lambda>(duration, frame). nat \<lceil>duration - frame\<rceil>)"
    by simp
qed

declare previewLoop.simps [simp del]

subsection \<open>The renderer as a state machine\<close>

text \<open>
  \<open>renderProject\<close>, \<open>renderPreview\<close> and \<open>renderFinal\<close> are \<open>async\<close>: a call runs up to its
  first \<open>await\<close> and is resumed, one \<open>await\<close> at a time, when the awaited promise settles;
  between two such steps other calls may run. A suspended call is the point it waits at
  with the locals it needs: the frame being rendered, the frames collected so far and how
  the pending \<open>renderFrame\<close> promise will settle (its synchronous part has already run), or
  the URL that \<open>createPreviewVideo\<close>, \<open>encodeVideo\<close> or \<open>optimizeOutput\<close> will resolve to.
  \<open>Rejected\<close> is the call whose \<open>renderPreview\<close> or \<open>renderFinal\<close> has thrown and whose \<open>catch\<close>
  block in \<open>renderProject\<close> has not run yet.
\<close>

datatype failure = Thrown error | InvalidProject

datatype continuation =
    PreviewFrame rat "string list" "failure + string"
  | PreviewVideo string
  | FinalFrame rat "string list" "failure + string"
  | EncodeVideo string
  | OptimizeOutput string
  | Rejected failure

text \<open>
  The renderer with what it shares: the job objects by id, the keys of the table
  \<open>this.jobs\<close> in insertion order, \<open>this.activeJobs\<close>, \<open>this.maxConcurrentJobs\<close>, the project
  loaded in the engine, the composer's cache, the suspended calls by job id, and the store
  that holds the property bags and the keyframe arrays of the projects it is given. A job
  object lives on when \<open>clearCompletedJobs\<close> takes its key out of the table.
\<close>

record renderer =
  rn_objects :: "(string \<times> render_job) list"
  rn_jobs :: "string list"
  rn_activeJobs :: "string list"
  rn_maxConcurrentJobs :: nat
  rn_loaded :: "project option"
  rn_cache :: composition_cache
  rn_pending :: "(string \<times> continuation) list"
  rn_store :: store

text \<open>
  What the JavaScript runtime and the remotion package contribute: the easing curves, the
  conversion of strings (and, where values are trees, of objects) to numbers, the message
  of a thrown error, and the number of nested calls the stack allows.
\<close>

record runtime =
  rt_curve :: "easing_type \<Rightarrow> rat \<Rightarrow> rat"
  rt_toNumber :: "val \<Rightarrow> rat option"
  rt_message :: "failure \<Rightarrow> string"
  rt_stack :: nat

text \<open>A new renderer; no object has been built yet.\<close>

definition newRenderer :: renderer where
  "newRenderer =
     \<lparr>rn_objects = [], rn_jobs = [], rn_activeJobs = [], rn_maxConcurrentJobs = 2,
      rn_loaded = None, rn_cache = [], rn_pending = [],
      rn_store = \<lparr>st_objects = [], st_keyframes = []\<rparr>\<rparr>"

definition getJob :: "renderer \<Rightarrow> string \<Rightarrow> render_job option" where
  "getJob r jobId = (if jobId \<in> set (rn_jobs r) then map_of (rn_objects r) jobId else None)"

definition getAllJobs :: "renderer \<Rightarrow> render_job list" where
  "getAllJobs r = List.map_filter (map_of (rn_objects r)) (rn_jobs r)"

text \<open>A write to the fields of the job object \<open>jobId\<close>.\<close>

definition putJob :: "renderer \<Rightarrow> string \<Rightarrow> render_job \<Rightarrow> renderer" where
  "putJob r jobId job = r\<lparr>rn_objects := map_set (rn_objects r) jobId job\<rparr>"

definition suspend :: "renderer \<Rightarrow> string \<Rightarrow> continuation \<Rightarrow> renderer" where
  "suspend r jobId k = r\<lparr>rn_pending := map_set (rn_pending r) jobId k\<rparr>"

definition settle :: "renderer \<Rightarrow> string \<Rightarrow> renderer" where
  "settle r jobId = r\<lparr>rn_pending := filter (\<lambda>p. fst p \<noteq> jobId) (rn_pending r)\<rparr>"

text \<open>
  The call \<open>this.renderFrame(job.project, frame, ...)\<close> from a job: the store and the
  cache are updated at once, the outcome is kept for the resumption.
\<close>

definition callRenderFrame ::
  "runtime \<Rightarrow> rat \<Rightarrow> renderer \<Rightarrow> render_job \<Rightarrow> rat \<Rightarrow> renderer \<times> (failure + string)"
where
  "callRenderFrame rt now r job frame =
     (case renderFrame (rt_stack rt) (rt_curve rt) (rt_toNumber rt) (rn_loaded r) now
             (rn_store r) (rn_cache r) (rj_project job) frame of
        (st, cache, Inl e) \<Rightarrow> (r\<lparr>rn_cache := cache, rn_store := st\<rparr>, Inl (Thrown e))
      | (st, cache, Inr frameData) \<Rightarrow> (r\<lparr>rn_cache := cache, rn_store := st\<rparr>, Inr frameData))"

definition createPreviewVideo :: "string \<Rightarrow> render_options \<Rightarrow> string" where
  "createPreviewVideo generatedId options = ''/api/previews/'' @ generatedId @ ''.'' @ ro_format options"

definition encodeVideo :: "string \<Rightarrow> render_options \<Rightarrow> string" where
  "encodeVideo generatedId options = ''/api/videos/'' @ generatedId @ ''.'' @ ro_format options"

text \<open>\<open>s.replace(pattern, replacement)\<close> with a string pattern: the first occurrence.\<close>

fun replace_first :: "string \<Rightarrow> string \<Rightarrow> string \<Rightarrow> string" where
  "replace_first pattern replacement [] = (if pattern = [] then replacement else [])"
| "replace_first pattern replacement (c # cs) =
     (if take (length pattern) (c # cs) = pattern
      then replacement @ drop (length pattern) (c # cs)
      else c # replace_first pattern replacement cs)"

definition optimizeOutput :: "string \<Rightarrow> render_options \<Rightarrow> string" where
  "optimizeOutput videoUrl options =
     (if ro_format options = ''gif'' then replace_first ''.mp4'' ''.gif'' videoUrl
      else if ro_format options = ''lottie'' then replace_first ''.mp4'' ''.json'' videoUrl
      else videoUrl)"

text \<open>
  \<open>MotionProjectSchema.parse\<close> in \<open>loadProject\<close> throws unless duration, fps, width and
  height are positive (the other fields are checked for their types only).
\<close>

definition validProject :: "project \<Rightarrow> bool" where
  "validProject project =
     (pj_duration project > 0 \<and> pj_fps project > 0 \<and> pj_width project > 0
      \<and> pj_height project > 0)"

text \<open>
  The end of \<open>renderPreview\<close>'s loop: the stage becomes \<open>finalizing\<close> and the preview video
  is requested.
\<close>

definition previewDone :: "string \<Rightarrow> string \<Rightarrow> renderer \<Rightarrow> render_job \<Rightarrow> renderer" where
  "previewDone jobId generatedId r job =
     suspend (putJob r jobId (updateJobStage job Finalizing)) jobId
       (PreviewVideo (createPreviewVideo generatedId (rj_options job)))"

text \<open>
  The head of the loop of \<open>renderPreview\<close> at \<open>frame\<close>, up to the next \<open>await\<close>: the frame is
  requested if \<open>frame < duration\<close>, and the loop is left otherwise. \<open>None\<close> is the NaN that
  \<open>frame += frameStep\<close> gives with a NaN step; \<open>NaN < duration\<close> is false.
\<close>

definition previewFrom ::
  "runtime \<Rightarrow> rat \<Rightarrow> string \<Rightarrow> string \<Rightarrow> renderer \<Rightarrow> render_job \<Rightarrow> string list
     \<Rightarrow> rat option \<Rightarrow> renderer"
where
  "previewFrom rt now jobId generatedId r job frames frame =
     (case frame of
        None \<Rightarrow> previewDone jobId generatedId r job
      | Some f \<Rightarrow>
          if f < pj_duration (rj_project job) then
            (case callRenderFrame rt now r job f of
               (r', outcome) \<Rightarrow>
                 suspend (putJob r' jobId job) jobId (PreviewFrame f frames outcome))
          else previewDone jobId generatedId r job)"

text \<open>The same for the loop of \<open>renderFinal\<close>, which is left for the encoding stage.\<close>

definition finalFrom ::
  "runtime \<Rightarrow> rat \<Rightarrow> string \<Rightarrow> string \<Rightarrow> renderer \<Rightarrow> render_job \<Rightarrow> string list
     \<Rightarrow> rat \<Rightarrow> renderer"
where
  "finalFrom rt now jobId generatedId r job frames frame =
     (if frame < pj_duration (rj_project job) then
        (case callRenderFrame rt now r job frame of
           (r', outcome) \<Rightarrow>
             suspend (putJob r' jobId job) jobId (FinalFrame frame frames outcome))
      else
        suspend (putJob r jobId (updateJobStage job Encoding)) jobId
          (EncodeVideo (encodeVideo generatedId (rj_options job))))"

text \<open>
  The call \<open>renderProject(project, options)\<close> up to its first \<open>await\<close>. \<open>generateId\<close> draws
  from \<open>Math.random\<close> and the clock: the ids it returns are given, \<open>jobId\<close> for the job and
  \<open>generatedId\<close> for a URL, and \<open>jobId\<close> is taken to be new (a call with a used id is left
  out). The job enters the table as \<open>pending\<close>; \<open>renderPreview\<close> or \<open>renderFinal\<close> starts at
  once, within the call.
\<close>

definition renderProject ::
  "runtime \<Rightarrow> rat \<Rightarrow> string \<Rightarrow> string \<Rightarrow> project \<Rightarrow> render_options \<Rightarrow> renderer \<Rightarrow> renderer"
where
  "renderProject rt now jobId generatedId project options r =
     (if jobId \<in> fst ` set (rn_objects r) then r
      else
        let job = \<lparr>rj_id = jobId, rj_project = project, rj_options = options,
                   rj_status = Pending, rj_progress = 0, rj_currentStage = Initializing,
                   rj_startTime = Some now, rj_endTime = None, rj_outputUrl = None,
                   rj_error = None\<rparr>;
            r1 = (putJob r jobId job)\<lparr>rn_jobs := rn_jobs r @ [jobId]\<rparr>
        in
          if ro_preview options then
            previewFrom rt now jobId generatedId r1 (updateJobStage job Composing) [] (Some 0)
          else
            (let composing = updateJobStage job Composing in
             if \<not> validProject project
             then suspend (putJob r1 jobId composing) jobId (Rejected InvalidProject)
             else
               finalFrom rt now jobId generatedId (r1\<lparr>rn_loaded := Some project\<rparr>)
                 (updateJobStage composing Rendering) [] 0))"

text \<open>
  The resumption of the suspended call of a job: the rest of the loop body and on to the
  next \<open>await\<close>, or to the end, where the job becomes \<open>completed\<close>; for a rejected call, the
  \<open>catch\<close> block of \<open>renderProject\<close>, where it becomes \<open>failed\<close>.
\<close>

definition resume :: "runtime \<Rightarrow> rat \<Rightarrow> string \<Rightarrow> string \<Rightarrow> renderer \<Rightarrow> renderer" where
  "resume rt now jobId generatedId r =
     (case (map_of (rn_pending r) jobId, map_of (rn_objects r) jobId) of
        (Some k, Some job) \<Rightarrow>
          (case k of
             PreviewFrame frame frames (Inr frameData) \<Rightarrow>
               previewFrom rt now jobId generatedId r
                 (updateJobProgress job (frame / pj_duration (rj_project job) * 100))
                 (frames @ [frameData])
                 (case frameStep (pj_duration (rj_project job)) of
                    Some stride \<Rightarrow> Some (frame + stride)
                  | None \<Rightarrow> None)
           | PreviewFrame frame frames (Inl f) \<Rightarrow> suspend r jobId (Rejected f)
           | PreviewVideo previewUrl \<Rightarrow>
               settle
                 (putJob r jobId (job\<lparr>rj_status := Completed, rj_outputUrl := Some previewUrl,
                                rj_endTime := Some now\<rparr>))
                 jobId
           | FinalFrame frame frames (Inr frameData) \<Rightarrow>
               finalFrom rt now jobId generatedId r
                 (updateJobProgress job (frame / pj_duration (rj_project job) * 80))
                 (frames @ [frameData]) (frame + 1)
           | FinalFrame frame frames (Inl f) \<Rightarrow> suspend r jobId (Rejected f)
           | EncodeVideo videoUrl \<Rightarrow>
               suspend (putJob r jobId (updateJobStage (updateJobProgress job 90) Optimizing)) jobId
                 (OptimizeOutput (optimizeOutput videoUrl (rj_options job)))
           | OptimizeOutput optimizedUrl \<Rightarrow>
               settle
                 (putJob r jobId
                    ((updateJobStage (updateJobProgress job 100) Finalizing)
                       \<lparr>rj_status := Completed, rj_outputUrl := Some optimizedUrl,
                        rj_endTime := Some now\<rparr>))
                 jobId
           | Rejected f \<Rightarrow>
               settle
                 (putJob r jobId (job\<lparr>rj_status := Failed, rj_error := Some (rt_message rt f),
                                rj_endTime := Some now\<rparr>))
                 jobId)
      | _ \<Rightarrow> r)"

text \<open>
  \<open>cancelJob\<close>, with the boolean it returns. The remove of a list stands for
  \<open>Set.prototype.delete\<close>.
\<close>

definition cancelJob :: "rat \<Rightarrow> string \<Rightarrow> renderer \<Rightarrow> renderer \<times> bool" where
  "cancelJob now jobId r =
     (case getJob r jobId of
        Some job \<Rightarrow>
          if rj_status job = Processing then
            ((putJob r jobId (job\<lparr>rj_status := Failed, rj_error := Some ''Cancelled by user'',
                             rj_endTime := Some now\<rparr>))
               \<lparr>rn_activeJobs := removeAll jobId (rn_activeJobs r)\<rparr>,
             True)
          else (r, False)
      | None \<Rightarrow> (r, False))"

definition clearCompletedJobs :: "renderer \<Rightarrow> renderer" where
  "clearCompletedJobs r =
     r\<lparr>rn_jobs :=
         filter (\<lambda>jobId. case map_of (rn_objects r) jobId of
                            Some job \<Rightarrow> \<not> (rj_status job = Completed \<or> rj_status job = Failed)
                          | None \<Rightarrow> True)
           (rn_jobs r)\<rparr>"

text \<open>
  What happens to a renderer, one step at a time, and a run of such steps. \<open>Build\<close> is a
  caller that builds objects and keyframe arrays, for a project it will hand over: they
  are appended to the store.
\<close>

datatype event =
    RenderProject rat string string project render_options
  | Resume rat string string
  | CancelJob rat string
  | ClearCompletedJobs
  | Build "(string \<times> hval) list list" "hval keyframe_of list list"

fun step :: "runtime \<Rightarrow> renderer \<Rightarrow> event \<Rightarrow> renderer" where
  "step rt r (RenderProject now jobId generatedId project options) =
     renderProject rt now jobId generatedId project options r"
| "step rt r (Resume now jobId generatedId) = resume rt now jobId generatedId r"
| "step rt r (CancelJob now jobId) = fst (cancelJob now jobId r)"
| "step rt r ClearCompletedJobs = clearCompletedJobs r"
| "step rt r (Build objects arrays) =
     r\<lparr>rn_store :=
         \<lparr>st_objects = st_objects (rn_store r) @ objects,
          st_keyframes = st_keyframes (rn_store r) @ arrays\<rparr>\<rparr>"

definition run :: "runtime \<Rightarrow> renderer \<Rightarrow> event list \<Rightarrow> renderer" where
  "run rt r events = foldl (step rt) r events"

subsection \<open>Strings\<close>

text \<open>\<open>String.prototype.includes\<close>, to say what a message contains.\<close>

definition js_includes :: "string \<Rightarrow> string \<Rightarrow> bool" where
  "js_includes s part = list_ex (\<lambda>i. take (length part) (drop i s) = part) [0..<Suc (length s)]"

section \<open>Example inputs\<close>

definition single_keyframe_animation :: animation where
  "single_keyframe_animation =
     \<lparr>an_property = ''opacity'',
      an_keyframes = [\<lparr>kf_frame = 10, kf_value = VNum 5, kf_easing = None\<rparr>],
      an_easing = Linear, an_duration = 0, an_delay = 0, an_loop = False, an_yoyo = False\<rparr>"

text \<open>
  A scene of four elements in a store that holds their property bags, at the addresses 0
  to 3, and the keyframe array of the one animation, which fades the title in over the
  frames 0 to 10. The logo is locked, the guide is not visible, and the credits start at
  frame 8.
\<close>

definition example_store :: store where
  "example_store =
     \<lparr>st_objects = [[(''opacity'', HNum 1)], [(''opacity'', HNum 0)], [(''opacity'', HNum 1)],
                     [(''opacity'', HNum 1)]],
      st_keyframes = [[\<lparr>kf_frame = 0, kf_value = HNum 0, kf_easing = None\<rparr>,
                       \<lparr>kf_frame = 10, kf_value = HNum 1, kf_easing = None\<rparr>]]\<rparr>"

definition locked_element :: element where
  "locked_element =
     \<lparr>el_id = ''logo'', el_startFrame = 0, el_endFrame = 10, el_layer = 3,
      el_visible = True, el_locked = True, el_properties = 0,
      el_animations = [], el_effects = []\<rparr>"

definition title_element :: element where
  "title_element =
     \<lparr>el_id = ''title'', el_startFrame = 0, el_endFrame = 10, el_layer = 2,
      el_visible = True, el_locked = False, el_properties = 1,
      el_animations =
        [\<lparr>an_property = ''opacity'', an_keyframes = 0, an_easing = Linear, an_duration = 0,
          an_delay = 0, an_loop = False, an_yoyo = False\<rparr>],
      el_effects = []\<rparr>"

definition hidden_element :: element where
  "hidden_element =
     \<lparr>el_id = ''guide'', el_startFrame = 0, el_endFrame = 10, el_layer = 1,
      el_visible = False, el_locked = False, el_properties = 2,
      el_animations = [], el_effects = []\<rparr>"

definition late_element :: element where
  "late_element =
     \<lparr>el_id = ''credits'', el_startFrame = 8, el_endFrame = 10, el_layer = 0,
      el_visible = True, el_locked = False, el_properties = 3,
      el_animations = [], el_effects = []\<rparr>"

definition example_scene :: scene where
  "example_scene =
     \<lparr>sc_id = ''intro'', sc_startFrame = 0, sc_endFrame = 10, sc_duration = 10,
      sc_elements = [locked_element, title_element, hidden_element, late_element],
      sc_transitions = []\<rparr>"

text \<open>
  An element whose bag holds an empty object under \<open>a\<close>, at address 1, and whose two
  animations set \<open>a.b.c\<close> to 1 and \<open>a.b\<close> to 7.
\<close>

definition tangled_store :: store where
  "tangled_store =
     \<lparr>st_objects = [[(''a'', HRef 1), (''opacity'', HNum 1)], []],
      st_keyframes = [[\<lparr>kf_frame = 0, kf_value = HNum 1, kf_easing = None\<rparr>],
                      [\<lparr>kf_frame = 0, kf_value = HNum 7, kf_easing = None\<rparr>]]\<rparr>"

definition tangled_element :: element where
  "tangled_element =
     \<lparr>el_id = ''badge'', el_startFrame = 0, el_endFrame = 10, el_layer = 0,
      el_visible = True, el_locked = False, el_properties = 0,
      el_animations =
        [\<lparr>an_property = ''a.b.c'', an_keyframes = 0, an_easing = Linear, an_duration = 0,
          an_delay = 0, an_loop = False, an_yoyo = False\<rparr>,
         \<lparr>an_property = ''a.b'', an_keyframes = 1, an_easing = Linear, an_duration = 0,
          an_delay = 0, an_loop = False, an_yoyo = False\<rparr>],
      el_effects = []\<rparr>"

definition tangled_scene :: scene where
  "tangled_scene =
     \<lparr>sc_id = ''outro'', sc_startFrame = 0, sc_endFrame = 10, sc_duration = 10,
      sc_elements = [tangled_element], sc_transitions = []\<rparr>"

definition fade_in_transition :: transition where
  "fade_in_transition =
     \<lparr>tr_type = Fade, tr_duration = 30, tr_easing = Linear, tr_direction = Some DirIn,
      tr_parameters = []\<rparr>"

definition fade_scene :: scene where
  "fade_scene =
     \<lparr>sc_id = ''second'', sc_startFrame = 10, sc_endFrame = 100, sc_duration = 90,
      sc_elements = [], sc_transitions = [fade_in_transition]\<rparr>"


text \<open>A registry that holds the fade entry only.\<close>

definition fade_only_registry :: "transition_type \<Rightarrow> transition_effect option" where
  "fade_only_registry t = (if t = Fade then Some (fade_effect (\<lambda>v. None)) else None)"

text \<open>A registry that holds the noise entry only.\<close>

definition noise_only_registry :: "string \<Rightarrow> effect_definition option" where
  "noise_only_registry t = (if t = ''noise'' then Some noise_definition else None)"

definition loud_noise :: effect where
  "loud_noise =
     \<lparr>ef_type = ''noise'', ef_enabled = True,
      ef_parameters = [(''amount'', VNum 5), (''scale'', VNum 1), (''animated'', VBool False)],
      ef_startFrame = None, ef_endFrame = None\<rparr>"

text \<open>
  A runtime, two projects without scenes (one of one frame, one of none, which the schema
  rejects), three final render requests made in a row, one request followed to its end,
  one request that is cancelled right after it is made and then followed to its end, and
  a renderer whose table has been set by hand to hold a job in \<open>processing\<close>.
\<close>

definition plain_runtime :: runtime where
  "plain_runtime =
     \<lparr>rt_curve = (\<lambda>easing progress. progress), rt_toNumber = (\<lambda>v. None),
      rt_message = (\<lambda>f. ''error''), rt_stack = 10000\<rparr>"

definition short_project :: project where
  "short_project =
     \<lparr>pj_duration = 1, pj_fps = 30, pj_width = 1920, pj_height = 1080, pj_scenes = []\<rparr>"

definition empty_project :: project where
  "empty_project =
     \<lparr>pj_duration = 0, pj_fps = 30, pj_width = 1920, pj_height = 1080, pj_scenes = []\<rparr>"

definition final_options :: render_options where
  "final_options =
     \<lparr>ro_format = ''mp4'', ro_quality = ''high'', ro_resolution = ''1080p'',
      ro_preview = False\<rparr>"

definition three_requests :: "event list" where
  "three_requests =
     [RenderProject 0 ''a'' ''u1'' short_project final_options,
      RenderProject 0 ''b'' ''u2'' short_project final_options,
      RenderProject 0 ''c'' ''u3'' short_project final_options]"

definition one_final_render :: "event list" where
  "one_final_render =
     [RenderProject 0 ''a'' ''u1'' short_project final_options,
      Resume 1 ''a'' ''u2'', Resume 2 ''a'' ''u3'', Resume 3 ''a'' ''u4'']"

definition one_rejected_render :: "event list" where
  "one_rejected_render =
     [RenderProject 0 ''a'' ''u1'' empty_project final_options, Resume 1 ''a'' ''u2'']"

definition cancelled_render :: "event list" where
  "cancelled_render =
     [RenderProject 0 ''a'' ''u1'' short_project final_options, CancelJob 1 ''a'',
      Resume 2 ''a'' ''u2'', Resume 3 ''a'' ''u3'', Resume 4 ''a'' ''u4'']"

definition busy_renderer :: renderer where
  "busy_renderer =
     \<lparr>rn_objects =
        [(''job7'',
          \<lparr>rj_id = ''job7'',
           rj_project = \<lparr>pj_duration = 300, pj_fps = 30, pj_width = 1920, pj_height = 1080,
                          pj_scenes = []\<rparr>,
           rj_options = \<lparr>ro_format = ''mp4'', ro_quality = ''high'',
                          ro_resolution = ''1080p'', ro_preview = False\<rparr>,
           rj_status = Processing, rj_progress = 40, rj_currentStage = Rendering,
           rj_startTime = Some 100, rj_endTime = None, rj_outputUrl = None,
           rj_error = None\<rparr>)],
      rn_jobs = [''job7''], rn_activeJobs = [''job7''], rn_maxConcurrentJobs = 2,
      rn_loaded = None, rn_cache = [], rn_pending = [],
      rn_store = \<lparr>st_objects = [], st_keyframes = []\<rparr>\<rparr>"

text \<open>
  An element in a store: its property bag at address 0 refers to its \<open>position\<close> object at
  address 1; its one animation moves \<open>position.x\<close>, and its keyframe array lists the later
  keyframe first.
\<close>

definition moving_store :: store where
  "moving_store =
     \<lparr>st_objects = [[(''position'', HRef 1), (''opacity'', HNum 1)],
                     [(''x'', HNum 0), (''y'', HNum 0)]],
      st_keyframes = [[\<lparr>kf_frame = 30, kf_value = HNum 100, kf_easing = None\<rparr>,
                       \<lparr>kf_frame = 0, kf_value = HNum 50, kf_easing = None\<rparr>]]\<rparr>"

definition moving_element :: element where
  "moving_element =
     \<lparr>el_id = ''title'', el_startFrame = 0, el_endFrame = 60, el_layer = 1,
      el_visible = True, el_locked = False, el_properties = 0,
      el_animations =
        [\<lparr>an_property = ''position.x'', an_keyframes = 0, an_easing = Linear,
          an_duration = 0, an_delay = 0, an_loop = False, an_yoyo = False\<rparr>],
      el_effects = []\<rparr>"

section \<open>Properties of the evaluator\<close>

subsection \<open>Object interpolation\<close>



lemma get_prop_inherited:
  "map_of ts k = None \<Longrightarrow> k \<in> set object_prototype_functions \<Longrightarrow>
   get_prop (VObj ts) k = VFunction k"
  by (auto simp: inherited_def object_prototype_functions_def)





lemma null_free_object:
  "null_free to \<Longrightarrow> typeof to = TObject \<Longrightarrow> (\<exists>ts. to = VObj ts) \<or> to = VPrototype"
  by (cases to) auto







subsection \<open>Clamping before the first keyframe\<close>

lemma js_rem_nonneg: "0 \<le> a \<Longrightarrow> 0 < b \<Longrightarrow> 0 \<le> js_rem a b \<and> js_rem a b \<le> a"
proof -
  assume a: "0 \<le> a" and b: "0 < b"
  then have q: "0 \<le> a / b" by simp
  have fl: "of_int \<lfloor>a / b\<rfloor> \<le> a / b" by (rule of_int_floor_le)
  then have "b * of_int \<lfloor>a / b\<rfloor> \<le> b * (a / b)"
    using b by (intro mult_left_mono) simp_all
  then have "b * of_int \<lfloor>a / b\<rfloor> \<le> a"
    using b by simp
  moreover have "0 \<le> b * of_int \<lfloor>a / b\<rfloor>"
    using b q by simp
  ultimately show ?thesis
    using q by (simp add: js_rem_def Let_def)
qed

lemma odd_quotient_ge: 
  assumes "0 \<le> a" "0 < b" "js_rem (of_int \<lfloor>a / b\<rfloor>) 2 = 1"
  shows "b \<le> a"
proof (rule ccontr)
  assume "\<not> b \<le> a"
  then have "a / b < 1" using assms by simp
  moreover have "0 \<le> a / b" using assms by simp
  ultimately have "\<lfloor>a / b\<rfloor> = 0" by (simp add: floor_eq_iff)
  with assms(3) show False by (simp add: js_rem_def)
qed

lemma currentFrame_le: "0 \<le> x \<Longrightarrow> currentFrame a x \<le> x"
  using js_rem_nonneg[of x "an_duration a"] odd_quotient_ge[of x "an_duration a"]
  by (auto simp: currentFrame_def Let_def)

text \<open>
  Claim C3, as amended. The evaluator clamps: when the delay-adjusted frame is at or past
  0 but strictly before the first keyframe's frame, \<open>calculateAnimationValue\<close> returns the
  first keyframe's value, not \<open>undefined\<close>, whatever the loop and yoyo flags are. For an
  animation with a single keyframe it returns that keyframe's value for every frame at or
  after the delay, and \<open>undefined\<close> for every frame before the delay.
\<close>

theorem calculateAnimationValue_before_first_keyframe:
  "(an_keyframes a \<noteq> [] \<and> 0 \<le> frame - an_delay a
      \<and> frame - an_delay a < kf_frame (hd (sort_key kf_frame (an_keyframes a)))
    \<longrightarrow> snd (calculateAnimationValue curve a frame)
          = Inr (kf_value (hd (sort_key kf_frame (an_keyframes a)))))
   \<and> (an_keyframes a = [k]
    \<longrightarrow> snd (calculateAnimationValue curve a frame)
          = Inr (if frame < an_delay a then VUndefined else kf_value k))"
proof (intro conjI impI)
  assume h: "an_keyframes a \<noteq> [] \<and> 0 \<le> frame - an_delay a
      \<and> frame - an_delay a < kf_frame (hd (sort_key kf_frame (an_keyframes a)))"
  then have "currentFrame a (frame - an_delay a) \<le> frame - an_delay a"
    using currentFrame_le by blast
  with h have "currentFrame a (frame - an_delay a)
      \<le> kf_frame (hd (sort_key kf_frame (an_keyframes a)))" by linarith
  with h show "snd (calculateAnimationValue curve a frame)
          = Inr (kf_value (hd (sort_key kf_frame (an_keyframes a))))"
    by (simp add: calculateAnimationValue_def Let_def)
next
  assume "an_keyframes a = [k]"
  then show "snd (calculateAnimationValue curve a frame)
          = Inr (if frame < an_delay a then VUndefined else kf_value k)"
    by (auto simp: calculateAnimationValue_def Let_def)
qed

theorem calculateAnimationValue_before_first_keyframe_witness:
  "an_keyframes single_keyframe_animation \<noteq> []
   \<and> 0 \<le> 3 - an_delay single_keyframe_animation
   \<and> 3 - an_delay single_keyframe_animation
       < kf_frame (hd (sort_key kf_frame (an_keyframes single_keyframe_animation)))
   \<and> an_keyframes single_keyframe_animation
       = [\<lparr>kf_frame = 10, kf_value = VNum 5, kf_easing = None\<rparr>]
   \<and> snd (calculateAnimationValue (\<lambda>e x. x) single_keyframe_animation 3) = Inr (VNum 5)"
  using calculateAnimationValue_before_first_keyframe
    [of single_keyframe_animation 3 "\<lambda>e x. x" "\<lparr>kf_frame = 10, kf_value = VNum 5, kf_easing = None\<rparr>"]
  by (simp add: single_keyframe_animation_def)

text \<open>
  Claim C3 as stated fails: a single keyframe at frame 10, no delay, queried at frame 3.
  The adjusted frame 3 is at or past 0 and before the keyframe, and the result is the
  keyframe's value 5.
\<close>

theorem evaluate_before_first_keyframe_counterexample:
  "0 \<le> 3 - an_delay single_keyframe_animation
   \<and> 3 - an_delay single_keyframe_animation
       < kf_frame (hd (an_keyframes single_keyframe_animation))
   \<and> snd (calculateAnimationValue (\<lambda>e x. x) single_keyframe_animation 3) \<noteq> Inr VUndefined"
  by (simp add: single_keyframe_animation_def calculateAnimationValue_def currentFrame_def)

section \<open>Properties of the scene composer\<close>

subsection \<open>The layer list\<close>

lemma createLayers_elements:
  "createLayers stack curve toNumber st frame es = (st', Inr ls) \<Longrightarrow> map ly_element ls = es"
  by (induction es arbitrary: st ls) (auto split: prod.splits sum.splits)

lemma isElementVisible_locked:
  "isElementVisible stack curve toNumber st e frame = (st', Inr v) \<Longrightarrow> el_locked e \<Longrightarrow> \<not> v"
  by (auto simp: isElementVisible_def split: if_splits prod.splits sum.splits)

lemma createLayers_locked:
  "createLayers stack curve toNumber st frame es = (st', Inr ls) \<Longrightarrow>
   list_all (\<lambda>l. el_locked (ly_element l) \<longrightarrow> \<not> ly_visible l) ls"
  by (induction es arbitrary: st ls)
     (auto split: prod.splits sum.splits dest: isElementVisible_locked)

lemma split_dot_top: "CHR ''.'' \<notin> set path \<Longrightarrow> split_dot path = [path]"
  by (induction path) auto

lemma typeof_number: "typeof_h v = TNumber \<longleftrightarrow> (\<exists>n. v = HNum n)"
  by (cases v) auto

lemma interpolateKeyframes_numeric:
  "list_all (\<lambda>k. typeof_h (kf_value k) = TNumber) ks \<Longrightarrow>
   \<exists>v. interpolateKeyframes_st (Suc n) curve easing st ks frame = (st, Inr v)
       \<and> (v = HUndefined \<or> typeof_h v = TNumber)"
  by (induction "Suc n" curve easing st ks frame rule: interpolateKeyframes_st.induct)
     (auto simp: Let_def typeof_number)


lemma numeric_keyframes_at:
  "numeric_keyframes st \<Longrightarrow> list_all (\<lambda>k. typeof_h (kf_value k) = TNumber) (keyframes_at st a)"
  by (auto simp: numeric_keyframes_def keyframes_at_def list_all_iff)

lemma numeric_write_keyframes:
  "numeric_keyframes st \<Longrightarrow> list_all (\<lambda>k. typeof_h (kf_value k) = TNumber) ks \<Longrightarrow>
   numeric_keyframes (write_keyframes st a ks)"
  by (auto simp: numeric_keyframes_def write_keyframes_def list_all_iff
      dest!: set_update_subset_insert[THEN subsetD])

lemma objects_write_keyframes [simp]: "st_objects (write_keyframes st a ks) = st_objects st"
  by (simp add: write_keyframes_def)

lemma keyframes_write_field [simp]: "st_keyframes (write_field st a k v) = st_keyframes st"
  by (simp add: write_field_def)

lemma length_write_field [simp]:
  "length (st_objects (write_field st a k v)) = length (st_objects st)"
  by (simp add: write_field_def)

lemma numeric_write_field [simp]:
  "numeric_keyframes (write_field st a k v) = numeric_keyframes st"
  by (simp add: numeric_keyframes_def)

lemma fields_same_objects: "st_objects st' = st_objects st \<Longrightarrow> fields_at st' b = fields_at st b"
  by (simp add: fields_at_def)

lemma fields_write_field:
  "fields_at (write_field st a k v) b
     = (if b = a \<and> a < length (st_objects st) then set_field (fields_at st a) k v
        else fields_at st b)"
  by (simp add: fields_at_def write_field_def)

lemma map_of_set_field: "map_of (set_field fs k v) k' = (if k' = k then Some v else map_of fs k')"
  by (induction fs) auto

lemma sort_key_Nil: "sort_key f xs = [] \<longleftrightarrow> xs = []"
  by (metis set_sort set_empty)

lemma calculateAnimationValue_numeric:
  assumes num: "numeric_keyframes st"
  shows "\<exists>st' v. calculateAnimationValue_st (Suc n) curve st a frame = (st', Inr v)
      \<and> st_objects st' = st_objects st \<and> numeric_keyframes st'
      \<and> (v = HUndefined \<or> typeof_h v = TNumber)"
proof -
  let ?ks = "keyframes_at st (an_keyframes a)"
  let ?sorted = "sort_key kf_frame ?ks"
  let ?st1 = "write_keyframes st (an_keyframes a) ?sorted"
  from numeric_keyframes_at[OF num, of "an_keyframes a"]
  have nks: "list_all (\<lambda>k. typeof_h (kf_value k) = TNumber) ?sorted"
    by (simp add: list_all_iff)
  from numeric_write_keyframes[OF num nks] have n1: "numeric_keyframes ?st1" .
  show ?thesis
  proof (cases "?ks = [] \<or> frame - an_delay a < 0")
    case True
    with num show ?thesis by (auto simp: calculateAnimationValue_st_def Let_def)
  next
    case False
    then have ne: "?sorted \<noteq> []" by (simp add: sort_key_Nil)
    have hm: "hd ?sorted \<in> set ?sorted" using ne by (rule hd_in_set)
    have lm: "last ?sorted \<in> set ?sorted" using ne by (rule last_in_set)
    from nks hm have h: "typeof_h (kf_value (hd ?sorted)) = TNumber"
      unfolding list_all_iff by blast
    from nks lm have l: "typeof_h (kf_value (last ?sorted)) = TNumber"
      unfolding list_all_iff by blast
    from interpolateKeyframes_numeric[OF nks, of n curve "an_easing a" ?st1
        "currentFrame a (frame - an_delay a)"]
    obtain v where v: "interpolateKeyframes_st (Suc n) curve (an_easing a) ?st1 ?sorted
        (currentFrame a (frame - an_delay a)) = (?st1, Inr v)"
      "v = HUndefined \<or> typeof_h v = TNumber" by blast
    from False h l v n1 show ?thesis
      by (auto simp: calculateAnimationValue_st_def Let_def)
  qed
qed

lemma setNestedProperty_top:
  "top_level path \<Longrightarrow> setNestedProperty_st st (HRef c) path v = (write_field st c path v, None)"
  by (simp add: setNestedProperty_st_def top_level_def split_dot_top)

lemma opacity_write_number:
  "typeof_h (get_prop_st st (HRef c) ''opacity'') \<noteq> TObject \<Longrightarrow>
   typeof_h (get_prop_st (write_field st c path (HNum x)) (HRef c) ''opacity'') \<noteq> TObject"
  by (auto simp: fields_write_field map_of_set_field)

lemma applyAnimations_plain:
  assumes "numeric_keyframes st" "list_all (\<lambda>a. top_level (an_property a)) as"
  shows "\<exists>st'. applyAnimations_st (Suc n) curve st (HRef c) as frame = (st', None)
     \<and> numeric_keyframes st' \<and> length (st_objects st') = length (st_objects st)
     \<and> (\<forall>b. b \<noteq> c \<longrightarrow> fields_at st' b = fields_at st b)
     \<and> (typeof_h (get_prop_st st (HRef c) ''opacity'') \<noteq> TObject
          \<longrightarrow> typeof_h (get_prop_st st' (HRef c) ''opacity'') \<noteq> TObject)"
  using assms
proof (induction as arbitrary: st)
  case Nil
  then show ?case by simp
next
  case (Cons a as)
  from calculateAnimationValue_numeric[OF Cons.prems(1), of n curve a frame]
  obtain st1 v where c: "calculateAnimationValue_st (Suc n) curve st a frame = (st1, Inr v)"
    and o1: "st_objects st1 = st_objects st" and n1: "numeric_keyframes st1"
    and v: "v = HUndefined \<or> typeof_h v = TNumber" by blast
  from Cons.prems(2) have top: "top_level (an_property a)"
    and rest: "list_all (\<lambda>a. top_level (an_property a)) as" by simp_all
  define st2 where "st2 = (if v \<noteq> HUndefined then write_field st1 c (an_property a) v else st1)"
  have w: "(if v \<noteq> HUndefined then setNestedProperty_st st1 (HRef c) (an_property a) v
            else (st1, None)) = (st2, None)"
    by (simp add: st2_def setNestedProperty_top[OF top])
  have n2: "numeric_keyframes st2" using n1 by (simp add: st2_def)
  have l2: "length (st_objects st2) = length (st_objects st)" using o1 by (simp add: st2_def)
  have f2: "\<forall>b. b \<noteq> c \<longrightarrow> fields_at st2 b = fields_at st b"
    using fields_same_objects[OF o1] by (simp add: st2_def fields_write_field)
  have g1: "get_prop_st st1 (HRef c) ''opacity'' = get_prop_st st (HRef c) ''opacity''"
    using fields_same_objects[OF o1] by simp
  have op2: "typeof_h (get_prop_st st (HRef c) ''opacity'') \<noteq> TObject
          \<longrightarrow> typeof_h (get_prop_st st2 (HRef c) ''opacity'') \<noteq> TObject"
  proof (cases "v \<noteq> HUndefined")
    case True
    with v obtain x where "v = HNum x" by (auto simp: typeof_number)
    with True opacity_write_number[of st1 c "an_property a" x] g1 show ?thesis
      by (simp add: st2_def)
  next
    case False
    with g1 show ?thesis by (simp add: st2_def)
  qed
  from Cons.IH[OF n2 rest]
  obtain st' where r: "applyAnimations_st (Suc n) curve st2 (HRef c) as frame = (st', None)"
    and n': "numeric_keyframes st'" and l': "length (st_objects st') = length (st_objects st2)"
    and f': "\<forall>b. b \<noteq> c \<longrightarrow> fields_at st' b = fields_at st2 b"
    and op': "typeof_h (get_prop_st st2 (HRef c) ''opacity'') \<noteq> TObject
          \<longrightarrow> typeof_h (get_prop_st st' (HRef c) ''opacity'') \<noteq> TObject" by blast
  from c w r have "applyAnimations_st (Suc n) curve st (HRef c) (a # as) frame = (st', None)"
    by simp
  with n' l' l2 f' f2 op' op2 show ?case by auto
qed


lemma keyframes_allocate [simp]: "st_keyframes (allocate st fs) = st_keyframes st"
  by (simp add: allocate_def)

lemma length_allocate [simp]:
  "length (st_objects (allocate st fs)) = Suc (length (st_objects st))"
  by (simp add: allocate_def)

lemma numeric_allocate [simp]: "numeric_keyframes (allocate st fs) = numeric_keyframes st"
  by (simp add: numeric_keyframes_def)

lemma fields_allocate:
  "fields_at (allocate st fs) b = (if b = length (st_objects st) then fs else fields_at st b)"
  by (auto simp: fields_at_def allocate_def nth_append)

lemma calculateElementProperties_plain:
  assumes num: "numeric_keyframes st"
    and top: "list_all (\<lambda>a. top_level (an_property a)) (el_animations e)"
  shows "\<exists>st'. calculateElementPropertiesAtFrame_st (Suc n) curve st e frame
        = (st', Inr (HRef (length (st_objects st))))
     \<and> numeric_keyframes st' \<and> length (st_objects st') = Suc (length (st_objects st))
     \<and> (\<forall>b < length (st_objects st). fields_at st' b = fields_at st b)
     \<and> (typeof_h (get_prop_st st (HRef (el_properties e)) ''opacity'') \<noteq> TObject
          \<longrightarrow> typeof_h (get_prop_st st' (HRef (length (st_objects st))) ''opacity'') \<noteq> TObject)"
proof -
  let ?c = "length (st_objects st)"
  let ?st1 = "allocate st (fields_at st (el_properties e))"
  from num have n1: "numeric_keyframes ?st1" by simp
  from applyAnimations_plain[OF n1 top, of n curve ?c frame]
  obtain st' where r: "applyAnimations_st (Suc n) curve ?st1 (HRef ?c) (el_animations e) frame
        = (st', None)"
    and n': "numeric_keyframes st'" and l': "length (st_objects st') = length (st_objects ?st1)"
    and f': "\<forall>b. b \<noteq> ?c \<longrightarrow> fields_at st' b = fields_at ?st1 b"
    and op': "typeof_h (get_prop_st ?st1 (HRef ?c) ''opacity'') \<noteq> TObject
          \<longrightarrow> typeof_h (get_prop_st st' (HRef ?c) ''opacity'') \<noteq> TObject" by blast
  have g: "get_prop_st ?st1 (HRef ?c) ''opacity''
      = get_prop_st st (HRef (el_properties e)) ''opacity''"
    by (simp add: fields_allocate)
  from r have "calculateElementPropertiesAtFrame_st (Suc n) curve st e frame
        = (st', Inr (HRef ?c))"
    by (simp add: calculateElementPropertiesAtFrame_st_def Let_def)
  moreover from f' have "\<forall>b < ?c. fields_at st' b = fields_at st b"
    by (simp add: fields_allocate)
  ultimately show ?thesis using n' l' op' g by auto
qed

lemma le_zero_not_object: "typeof_h v \<noteq> TObject \<Longrightarrow> \<exists>b. le_zero_st toNumber st v = Inr b"
  by (cases v) (auto simp: le_zero_st_def split: option.splits)

lemma isElementVisible_plain:
  assumes num: "numeric_keyframes st" and pl: "plain_element st e"
  shows "\<exists>st' v. isElementVisible (Suc n) curve toNumber st e frame = (st', Inr v)
     \<and> numeric_keyframes st' \<and> length (st_objects st) \<le> length (st_objects st')
     \<and> (\<forall>b < length (st_objects st). fields_at st' b = fields_at st b)"
proof (cases "frame < el_startFrame e \<or> frame > el_endFrame e")
  case True
  with num show ?thesis by (auto simp: isElementVisible_def)
next
  case False
  from pl have top: "list_all (\<lambda>a. top_level (an_property a)) (el_animations e)"
    and op: "typeof_h (get_prop_st st (HRef (el_properties e)) ''opacity'') \<noteq> TObject"
    by (simp_all add: plain_element_def)
  from calculateElementProperties_plain[OF num top, of n curve frame] op
  obtain st' where r: "calculateElementPropertiesAtFrame_st (Suc n) curve st e frame
        = (st', Inr (HRef (length (st_objects st))))"
    and n': "numeric_keyframes st'" and l': "length (st_objects st') = Suc (length (st_objects st))"
    and f': "\<forall>b < length (st_objects st). fields_at st' b = fields_at st b"
    and op': "typeof_h (get_prop_st st' (HRef (length (st_objects st))) ''opacity'') \<noteq> TObject"
    by blast
  from le_zero_not_object[OF op', of toNumber st']
  obtain b where b: "le_zero_st toNumber st' (get_prop_st st' (HRef (length (st_objects st))) ''opacity'')
      = Inr b" by blast
  from False r b have "\<exists>v. isElementVisible (Suc n) curve toNumber st e frame = (st', Inr v)"
    by (auto simp: isElementVisible_def simp del: get_prop_st.simps)
  with n' l' f' show ?thesis by auto
qed

lemma plain_element_extend:
  "plain_element st e \<Longrightarrow> length (st_objects st) \<le> length (st_objects st') \<Longrightarrow>
   \<forall>b < length (st_objects st). fields_at st' b = fields_at st b \<Longrightarrow> plain_element st' e"
  by (simp add: plain_element_def)

lemma createLayers_plain:
  assumes "numeric_keyframes st" "list_all (plain_element st) es"
  shows "\<exists>st' ls. createLayers (Suc n) curve toNumber st frame es = (st', Inr ls)"
  using assms
proof (induction es arbitrary: st)
  case Nil
  then show ?case by simp
next
  case (Cons e es)
  from Cons.prems have pl: "plain_element st e" and rest: "list_all (plain_element st) es"
    by simp_all
  from pl have top: "list_all (\<lambda>a. top_level (an_property a)) (el_animations e)"
    by (simp add: plain_element_def)
  from calculateElementProperties_plain[OF Cons.prems(1) top, of n curve frame]
  obtain st1 where r1: "calculateElementPropertiesAtFrame_st (Suc n) curve st e frame
        = (st1, Inr (HRef (length (st_objects st))))"
    and n1: "numeric_keyframes st1" and l1: "length (st_objects st1) = Suc (length (st_objects st))"
    and f1: "\<forall>b < length (st_objects st). fields_at st1 b = fields_at st b" by blast
  from l1 have le1: "length (st_objects st) \<le> length (st_objects st1)" by simp
  from plain_element_extend[OF pl le1 f1] have pl1: "plain_element st1 e" .
  from isElementVisible_plain[OF n1 pl1, of n curve toNumber frame]
  obtain st2 v where r2: "isElementVisible (Suc n) curve toNumber st1 e frame = (st2, Inr v)"
    and n2: "numeric_keyframes st2" and le2: "length (st_objects st1) \<le> length (st_objects st2)"
    and f2: "\<forall>b < length (st_objects st1). fields_at st2 b = fields_at st1 b" by blast
  from le1 le2 have le: "length (st_objects st) \<le> length (st_objects st2)" by simp
  from f1 f2 le1 have f: "\<forall>b < length (st_objects st). fields_at st2 b = fields_at st b"
    by simp
  from rest have "list_all (plain_element st2) es"
    using plain_element_extend[OF _ le f] by (simp add: list_all_iff)
  from Cons.IH[OF n2 this]
  obtain st3 ls where "createLayers (Suc n) curve toNumber st2 frame es = (st3, Inr ls)"
    by blast
  with r1 r2 show ?case by simp
qed

text \<open>
  Claim C4, as amended. For every scene and frame at which \<open>createComposition\<close> returns, the
  layer list holds exactly the scene's elements with \<open>visible == true\<close> and
  \<open>startFrame <= frame <= endFrame\<close>, each as often as the scene lists it, ordered
  ascending by \<open>layer\<close> (elements of equal layer in scene order); every other element is
  excluded. Locked elements are not filtered out: they stay in the list, and the layer of
  a locked element has its own \<open>visible\<close> flag false. \<open>createComposition\<close> evaluates each
  of these elements twice, the second time on what the first has left behind, and either
  evaluation may raise; it returns, for one, whenever the stack is not empty, every
  keyframe value of the store is a number and each of these elements is plain: its bag is
  an object of the store whose opacity is not an object, and each path it animates is a
  single key.
\<close>

theorem createComposition_layers:
  "(0 < stack \<and> numeric_keyframes st
      \<and> list_all (plain_element st)
          (filter (\<lambda>e. el_startFrame e \<le> frame \<and> frame \<le> el_endFrame e \<and> el_visible e)
             (sc_elements scene))
    \<longrightarrow> (\<exists>st' comp. createComposition stack curve toNumber loaded now st scene frame
                       = (st', Inr comp)))
   \<and> (\<forall>st' comp. createComposition stack curve toNumber loaded now st scene frame
                       = (st', Inr comp) \<longrightarrow>
        mset (map ly_element (cp_layers comp))
          = mset (filter (\<lambda>e. el_startFrame e \<le> frame \<and> frame \<le> el_endFrame e \<and> el_visible e)
                    (sc_elements scene))
        \<and> sorted (map (\<lambda>l. el_layer (ly_element l)) (cp_layers comp))
        \<and> map ly_element (cp_layers comp)
            = sort_key el_layer
                (filter (\<lambda>e. el_startFrame e \<le> frame \<and> frame \<le> el_endFrame e \<and> el_visible e)
                   (sc_elements scene))
        \<and> list_all (\<lambda>l. el_locked (ly_element l) \<longrightarrow> \<not> ly_visible l) (cp_layers comp))"
  (is "(?pre \<longrightarrow> ?ret) \<and> ?res")
proof (rule conjI)
  let ?act = "filter (\<lambda>e. el_startFrame e \<le> frame \<and> frame \<le> el_endFrame e \<and> el_visible e)
             (sc_elements scene)"
  show "?pre \<longrightarrow> ?ret"
  proof (rule impI)
    assume pre: ?pre
    then obtain n where n: "stack = Suc n" by (cases stack) auto
    from pre have num: "numeric_keyframes st" and pl: "list_all (plain_element st) ?act"
      by (rule conjunct1[OF conjunct2], rule conjunct2[OF conjunct2])
    from pl have "list_all (plain_element st) (sort_key el_layer ?act)"
      by (simp add: list_all_iff)
    from createLayers_plain[OF num this, of n curve toNumber frame]
    obtain st' ls where "createLayers (Suc n) curve toNumber st frame (sort_key el_layer ?act)
        = (st', Inr ls)" by blast
    then show ?ret
      by (simp add: createComposition_def Let_def n)
  qed
next
  let ?act = "filter (\<lambda>e. el_startFrame e \<le> frame \<and> frame \<le> el_endFrame e \<and> el_visible e)
             (sc_elements scene)"
  show ?res
  proof (rule allI, rule allI, rule impI)
    fix st' comp
    assume r: "createComposition stack curve toNumber loaded now st scene frame = (st', Inr comp)"
    then obtain ls where ls: "createLayers stack curve toNumber st frame (sort_key el_layer ?act)
        = (st', Inr ls)" and c: "cp_layers comp = ls"
      by (auto simp: createComposition_def Let_def split: prod.splits sum.splits)
    from createLayers_elements[OF ls] c
    have m: "map ly_element (cp_layers comp) = sort_key el_layer ?act" by simp
    have s: "sorted (map (\<lambda>l. el_layer (ly_element l)) (cp_layers comp))"
    proof -
      have "map (\<lambda>l. el_layer (ly_element l)) (cp_layers comp)
          = map el_layer (map ly_element (cp_layers comp))" by (simp add: comp_def)
      also have "\<dots> = map el_layer (sort_key el_layer ?act)" by (simp only: m)
      finally show ?thesis by simp
    qed
    from m have ms: "mset (map ly_element (cp_layers comp)) = mset ?act" by simp
    from createLayers_locked[OF ls] c
    have lk: "list_all (\<lambda>l. el_locked (ly_element l) \<longrightarrow> \<not> ly_visible l) (cp_layers comp)"
      by simp
    from ms s m lk
    show "mset (map ly_element (cp_layers comp)) = mset ?act
        \<and> sorted (map (\<lambda>l. el_layer (ly_element l)) (cp_layers comp))
        \<and> map ly_element (cp_layers comp) = sort_key el_layer ?act
        \<and> list_all (\<lambda>l. el_locked (ly_element l) \<longrightarrow> \<not> ly_visible l) (cp_layers comp)"
      by (intro conjI)
  qed
qed

lemma example_scene_active:
  "filter (\<lambda>e. el_startFrame e \<le> 5 \<and> 5 \<le> el_endFrame e \<and> el_visible e)
     (sc_elements example_scene) = [locked_element, title_element]"
  by (simp add: example_scene_def locked_element_def title_element_def hidden_element_def
      late_element_def)

lemma example_scene_sorted:
  "sort_key el_layer [locked_element, title_element] = [title_element, locked_element]"
  by (simp add: locked_element_def title_element_def)

lemma example_scene_plain:
  "numeric_keyframes example_store
   \<and> list_all (plain_element example_store) [locked_element, title_element]"
  by code_simp

lemma example_scene_visible:
  "map_sum id (\<lambda>comp. map ly_visible (cp_layers comp))
     (snd (createComposition 100 (\<lambda>e x. x) (\<lambda>v. None) None 0 example_store example_scene 5))
   = Inr [True, False]"
  by code_simp

text \<open>
  Claim C4 as stated fails: the locked element of the example scene is in the layer list
  at frame 5, after the title, whose opacity the animation has brought to one half.
\<close>

theorem createComposition_locked_counterexample:
  "el_locked locked_element
   \<and> createComposition 100 (\<lambda>e x. x) (\<lambda>v. None) None 0 example_store example_scene 5
     = (\<lparr>st_objects =
           [[(''opacity'', HNum 1)], [(''opacity'', HNum 0)], [(''opacity'', HNum 1)],
            [(''opacity'', HNum 1)],
            [(''opacity'', HNum (1 / 2))], [(''opacity'', HNum (1 / 2))],
            [(''opacity'', HNum 1)], [(''opacity'', HNum 1)]],
         st_keyframes = st_keyframes example_store\<rparr>,
        Inr \<lparr>cp_scene = example_scene,
             cp_layers =
               [\<lparr>ly_element = title_element, ly_computedProperties = HRef 4,
                 ly_visible = True, ly_blendMode = VStr ''normal'', ly_mask = None\<rparr>,
                \<lparr>ly_element = locked_element, ly_computedProperties = HRef 6,
                 ly_visible = False, ly_blendMode = VStr ''normal'', ly_mask = None\<rparr>],
             cp_activeTransitions = [], cp_frame = 5, cp_timestamp = 0\<rparr>)"
  by code_simp

theorem createComposition_layers_witness:
  "0 < (100 :: nat) \<and> numeric_keyframes example_store
   \<and> list_all (plain_element example_store)
       (filter (\<lambda>e. el_startFrame e \<le> 5 \<and> 5 \<le> el_endFrame e \<and> el_visible e)
          (sc_elements example_scene))
   \<and> (\<exists>st' comp.
         createComposition 100 (\<lambda>e x. x) (\<lambda>v. None) None 0 example_store example_scene 5
           = (st', Inr comp)
         \<and> map ly_element (cp_layers comp) = [title_element, locked_element]
         \<and> map ly_visible (cp_layers comp) = [True, False])"
proof -
  have pre: "0 < (100 :: nat) \<and> numeric_keyframes example_store
   \<and> list_all (plain_element example_store)
       (filter (\<lambda>e. el_startFrame e \<le> 5 \<and> 5 \<le> el_endFrame e \<and> el_visible e)
          (sc_elements example_scene))"
    using example_scene_plain by (simp only: example_scene_active) simp
  note T = createComposition_layers
    [of 100 example_store 5 example_scene "\<lambda>e x. x" "\<lambda>v. None" None 0]
  from mp[OF conjunct1[OF T] pre]
  obtain st' comp where c:
    "createComposition 100 (\<lambda>e x. x) (\<lambda>v. None) None 0 example_store example_scene 5
       = (st', Inr comp)" by blast
  from mp[OF spec[OF spec[OF conjunct2[OF T]]] c]
  have "map ly_element (cp_layers comp)
            = sort_key el_layer
                (filter (\<lambda>e. el_startFrame e \<le> 5 \<and> 5 \<le> el_endFrame e \<and> el_visible e)
                   (sc_elements example_scene))"
    by (elim conjE)
  then have m: "map ly_element (cp_layers comp) = [title_element, locked_element]"
    by (simp only: example_scene_active example_scene_sorted)
  from example_scene_visible c have v: "map ly_visible (cp_layers comp) = [True, False]"
    by simp
  from c m v have ex: "\<exists>st' comp.
         createComposition 100 (\<lambda>e x. x) (\<lambda>v. None) None 0 example_store example_scene 5
           = (st', Inr comp)
         \<and> map ly_element (cp_layers comp) = [title_element, locked_element]
         \<and> map ly_visible (cp_layers comp) = [True, False]"
    by (intro exI[of _ st'] exI[of _ comp] conjI)
  show ?thesis
    by (intro conjI)
       (rule pre[THEN conjunct1], rule pre[THEN conjunct2, THEN conjunct1],
        rule pre[THEN conjunct2, THEN conjunct2], rule ex)
qed

text \<open>
  The second evaluation sees what the first has written. The bag of the tangled element
  holds an empty object under \<open>a\<close>; its two animations set \<open>a.b.c\<close> and then \<open>a.b\<close>, to
  numbers. One evaluation returns, leaving the number 7 under \<open>b\<close> in the object that the
  bag shares with the copy; the evaluation that \<open>isElementVisible\<close> adds then walks into
  that number and raises, and so does \<open>createComposition\<close>.
\<close>

lemma createComposition_raises_in_second_evaluation:
  "snd (calculateElementPropertiesAtFrame_st 100 (\<lambda>e x. x) tangled_store tangled_element 0)
     = Inr (HRef 2)
   \<and> fields_at
        (fst (calculateElementPropertiesAtFrame_st 100 (\<lambda>e x. x) tangled_store tangled_element 0))
        1 = [(''b'', HNum 7)]
   \<and> snd (createComposition 100 (\<lambda>e x. x) (\<lambda>v. None) None 0 tangled_store tangled_scene 0)
     = Inl TypeError"
  by code_simp


subsection \<open>Active transitions and the fade\<close>

lemma active_transitions_sound:
  "act \<in> set (calculateActiveTransitions loaded scene frame ts) \<Longrightarrow>
     at_transition act \<in> set ts
     \<and> at_startFrame act = getTransitionStartFrame (at_transition act) scene
     \<and> at_endFrame act = at_startFrame act + tr_duration (at_transition act)
     \<and> at_startFrame act \<le> frame \<and> frame \<le> at_endFrame act
     \<and> at_progress act = js_div (frame - at_startFrame act) (tr_duration (at_transition act))"
  by (induction ts) (auto simp: Let_def split: if_splits)

lemma active_transitions_complete:
  "tr \<in> set ts \<Longrightarrow> getTransitionStartFrame tr scene \<le> frame \<Longrightarrow>
   frame \<le> getTransitionStartFrame tr scene + tr_duration tr \<Longrightarrow>
   \<exists>act \<in> set (calculateActiveTransitions loaded scene frame ts). at_transition act = tr"
  by (induction ts) (auto simp: Let_def)

lemma fade_apply_numbers:
  "map_of ffs ''opacity'' = Some (VNum fo) \<Longrightarrow> map_of tfs ''opacity'' = Some (VNum t) \<Longrightarrow>
   fade_apply toNumber q (VObj ffs) (VObj tfs) params =
     Inr (VObj [(''from'', VObj (set_field ffs ''opacity'' (VNum (fo * (1 - q))))),
                (''to'', VObj (set_field tfs ''opacity'' (VNum (t * q))))])"
  by (simp add: fade_apply_def times_def)

text \<open>
  Claim C9. Every transition the composer reports at a frame is one of the scene's
  transitions whose window \<open>startFrame <= frame <= startFrame + duration\<close> holds the frame,
  every such transition is reported, and the reported progress is
  \<open>(frame - startFrame) / duration\<close> (the duration of an active transition is not negative;
  the quotient is a number unless it is zero). For a fade transition, \<open>applyTransition\<close>
  multiplies the outgoing opacity by \<open>1 - p\<close> and the incoming opacity by \<open>p\<close>, where \<open>p\<close>
  is the eased progress. The witness is the scenario of the claim: duration 30 from frame
  10, linear easing, frame 25, progress and both multipliers one half.
\<close>

theorem active_transition_progress_and_fade:
  "(\<forall>act \<in> set (calculateActiveTransitions loaded scene frame ts).
       at_transition act \<in> set ts
       \<and> at_startFrame act = getTransitionStartFrame (at_transition act) scene
       \<and> at_startFrame act \<le> frame
       \<and> frame \<le> at_startFrame act + tr_duration (at_transition act)
       \<and> (tr_duration (at_transition act) \<noteq> 0 \<longrightarrow>
            at_progress act
              = Some ((frame - at_startFrame act) / tr_duration (at_transition act))))
   \<and> (\<forall>tr \<in> set ts.
        getTransitionStartFrame tr scene \<le> frame
        \<and> frame \<le> getTransitionStartFrame tr scene + tr_duration tr \<longrightarrow>
        (\<exists>act \<in> set (calculateActiveTransitions loaded scene frame ts). at_transition act = tr))
   \<and> (effects Fade = Some (fade_effect toNumber) \<and> tr_type fade = Fade
        \<and> map_of ffs ''opacity'' = Some (VNum fo) \<and> map_of tfs ''opacity'' = Some (VNum t) \<longrightarrow>
        applyTransition effects curve fade progress (VObj ffs) (VObj tfs)
          = Inr (VObj
              [(''from'', VObj (set_field ffs ''opacity''
                   (VNum (fo * (1 - applyEasing curve progress (tr_easing fade)))))),
               (''to'', VObj (set_field tfs ''opacity''
                   (VNum (t * applyEasing curve progress (tr_easing fade)))))]))"
proof (intro conjI ballI impI)
  fix act assume mem: "act \<in> set (calculateActiveTransitions loaded scene frame ts)"
  note s = active_transitions_sound[OF mem]
  from s show "at_transition act \<in> set ts" by simp
  from s show "at_startFrame act = getTransitionStartFrame (at_transition act) scene" by simp
  from s show "at_startFrame act \<le> frame" by simp
  from s show "frame \<le> at_startFrame act + tr_duration (at_transition act)" by simp
  assume "tr_duration (at_transition act) \<noteq> 0"
  with s show "at_progress act = Some ((frame - at_startFrame act) / tr_duration (at_transition act))"
    by (simp add: js_div_def)
next
  fix tr
  assume "tr \<in> set ts"
    and "getTransitionStartFrame tr scene \<le> frame
        \<and> frame \<le> getTransitionStartFrame tr scene + tr_duration tr"
  then show "\<exists>act \<in> set (calculateActiveTransitions loaded scene frame ts). at_transition act = tr"
    using active_transitions_complete by blast
next
  assume h: "effects Fade = Some (fade_effect toNumber) \<and> tr_type fade = Fade
        \<and> map_of ffs ''opacity'' = Some (VNum fo) \<and> map_of tfs ''opacity'' = Some (VNum t)"
  then have "applyTransition effects curve fade progress (VObj ffs) (VObj tfs)
      = fade_apply toNumber (applyEasing curve progress (tr_easing fade)) (VObj ffs) (VObj tfs)
          (merge [(''crossFade'', VBool True)] (tr_parameters fade))"
    by (simp add: applyTransition_def fade_effect_def)
  with h show "applyTransition effects curve fade progress (VObj ffs) (VObj tfs)
          = Inr (VObj
              [(''from'', VObj (set_field ffs ''opacity''
                   (VNum (fo * (1 - applyEasing curve progress (tr_easing fade)))))),
               (''to'', VObj (set_field tfs ''opacity''
                   (VNum (t * applyEasing curve progress (tr_easing fade)))))])"
    by (simp add: fade_apply_numbers)
qed

theorem active_transition_progress_and_fade_witness:
  "calculateActiveTransitions None fade_scene 25 (sc_transitions fade_scene)
     = [\<lparr>at_transition = fade_in_transition, at_progress = Some (1 / 2),
         at_startFrame = 10, at_endFrame = 40, at_fromScene = None, at_toScene = None\<rparr>]
   \<and> tr_duration fade_in_transition \<noteq> 0
   \<and> fade_only_registry Fade = Some (fade_effect (\<lambda>v. None))
   \<and> tr_type fade_in_transition = Fade
   \<and> applyTransition fade_only_registry (\<lambda>e x. x) fade_in_transition (1 / 2)
         (VObj [(''opacity'', VNum 1)]) (VObj [(''opacity'', VNum 1)])
       = Inr (VObj [(''from'', VObj [(''opacity'', VNum (1 / 2))]),
                    (''to'', VObj [(''opacity'', VNum (1 / 2))])])"
  using active_transition_progress_and_fade
    [of None fade_scene 25 "sc_transitions fade_scene" fade_only_registry "\<lambda>v. None"
        fade_in_transition "[(''opacity'', VNum 1)]" 1 "[(''opacity'', VNum 1)]" 1
        "\<lambda>e x. x" "1 / 2"]
  by (simp add: fade_scene_def fade_in_transition_def fade_only_registry_def
      getTransitionStartFrame_def js_div_def getPreviousScene_def getNextScene_def)

section \<open>Properties of the effect library\<close>

lemma validateEffect_errors:
  "effects (ef_type effect) = Some defn \<Longrightarrow> paramDef \<in> set (ed_parameters defn) \<Longrightarrow>
   msg \<in> set (validateParameter numberToString (ef_parameters effect) paramDef) \<Longrightarrow>
   \<not> fst (validateEffect effects numberToString effect)
   \<and> msg \<in> set (snd (validateEffect effects numberToString effect))"
proof -
  assume d: "effects (ef_type effect) = Some defn"
    and p: "paramDef \<in> set (ed_parameters defn)"
    and m: "msg \<in> set (validateParameter numberToString (ef_parameters effect) paramDef)"
  let ?errors = "concat (map (validateParameter numberToString (ef_parameters effect))
                           (ed_parameters defn))"
  from p m have "msg \<in> set ?errors" by auto
  moreover from this have "?errors \<noteq> []" by (cases ?errors) simp_all
  ultimately show ?thesis using d by (simp add: validateEffect_def Let_def)
qed

lemma validateParameter_below:
  "ep_type paramDef = PNumber \<or> ep_type paramDef = PRange \<Longrightarrow>
   get_prop (VObj parameters) (ep_name paramDef) = VNum n \<Longrightarrow>
   ep_min paramDef = Some lo \<Longrightarrow> n < lo \<Longrightarrow>
   ''Parameter '' @ ep_name paramDef @ '' is below minimum value '' @ numberToString lo
     \<in> set (validateParameter numberToString parameters paramDef)"
  by (auto simp: validateParameter_def Let_def)

lemma validateParameter_above:
  "ep_type paramDef = PNumber \<or> ep_type paramDef = PRange \<Longrightarrow>
   get_prop (VObj parameters) (ep_name paramDef) = VNum n \<Longrightarrow>
   ep_max paramDef = Some hi \<Longrightarrow> hi < n \<Longrightarrow>
   ''Parameter '' @ ep_name paramDef @ '' is above maximum value '' @ numberToString hi
     \<in> set (validateParameter numberToString parameters paramDef)"
  by (auto simp: validateParameter_def Let_def)

lemma validateParameter_select:
  "ep_type paramDef = PSelect \<Longrightarrow> ep_options paramDef = Some options \<Longrightarrow>
   get_prop (VObj parameters) (ep_name paramDef) = v \<Longrightarrow> v \<noteq> VUndefined \<Longrightarrow> v \<noteq> VNull \<Longrightarrow>
   \<not> (\<exists>s. v = VStr s \<and> s \<in> set options) \<Longrightarrow>
   ''Parameter '' @ ep_name paramDef @ '' must be one of: '' @ join_comma options
     \<in> set (validateParameter numberToString parameters paramDef)"
  by (auto simp: validateParameter_def Let_def split: val.splits)

lemma applyEffect_raw:
  "effects (ef_type effect) = Some defn \<Longrightarrow> ef_enabled effect \<Longrightarrow>
   (case ef_startFrame effect of Some s \<Rightarrow> s \<le> frame | None \<Rightarrow> True) \<Longrightarrow>
   (case ef_endFrame effect of Some e \<Rightarrow> frame \<le> e | None \<Rightarrow> True) \<Longrightarrow>
   applyEffect effects element effect frame = ed_apply defn element (ef_parameters effect) frame"
  by (auto simp: applyEffect_def split: option.splits)

lemma get_set_field: "get_prop (VObj (set_field fs k v)) k = v"
  by (induction fs) auto

lemma noise_apply_amount:
  "\<exists>r. noise_apply (VObj fs) params frame = Inr r
     \<and> get_prop (get_prop (get_prop r ''filter'') ''noise'') ''amount''
        = get_prop (VObj params) ''amount''"
  by (simp add: noise_apply_def get_set_field del: get_prop.simps) simp


text \<open>
  Claim C7, as amended. Validation is strict: a numeric (\<open>number\<close> or \<open>range\<close>) parameter
  below its declared minimum or above its declared maximum, and a \<open>select\<close> parameter that
  is not one of its declared options, each make the result invalid and put their message
  in the error list. Application is not lenient by clamping: \<open>applyEffect\<close> hands
  \<open>effect.parameters\<close> to the definition's \<open>apply\<close> as they are, and the noise effect, for
  one, stores the \<open>amount\<close> it is given, in range or not.
\<close>

theorem validateEffect_rejects_applyEffect_raw:
  "(effects (ef_type effect) = Some defn \<and> paramDef \<in> set (ed_parameters defn)
      \<and> (ep_type paramDef = PNumber \<or> ep_type paramDef = PRange)
      \<and> get_prop (VObj (ef_parameters effect)) (ep_name paramDef) = VNum n
      \<and> ep_min paramDef = Some lo \<and> n < lo
    \<longrightarrow> \<not> fst (validateEffect effects numberToString effect)
        \<and> ''Parameter '' @ ep_name paramDef @ '' is below minimum value '' @ numberToString lo
            \<in> set (snd (validateEffect effects numberToString effect)))
   \<and> (effects (ef_type effect) = Some defn \<and> paramDef \<in> set (ed_parameters defn)
      \<and> (ep_type paramDef = PNumber \<or> ep_type paramDef = PRange)
      \<and> get_prop (VObj (ef_parameters effect)) (ep_name paramDef) = VNum n
      \<and> ep_max paramDef = Some hi \<and> hi < n
    \<longrightarrow> \<not> fst (validateEffect effects numberToString effect)
        \<and> ''Parameter '' @ ep_name paramDef @ '' is above maximum value '' @ numberToString hi
            \<in> set (snd (validateEffect effects numberToString effect)))
   \<and> (effects (ef_type effect) = Some defn \<and> paramDef \<in> set (ed_parameters defn)
      \<and> ep_type paramDef = PSelect \<and> ep_options paramDef = Some options
      \<and> get_prop (VObj (ef_parameters effect)) (ep_name paramDef) = v
      \<and> v \<noteq> VUndefined \<and> v \<noteq> VNull \<and> \<not> (\<exists>s. v = VStr s \<and> s \<in> set options)
    \<longrightarrow> \<not> fst (validateEffect effects numberToString effect)
        \<and> ''Parameter '' @ ep_name paramDef @ '' must be one of: '' @ join_comma options
            \<in> set (snd (validateEffect effects numberToString effect)))
   \<and> (effects (ef_type effect) = Some defn \<and> ef_enabled effect
      \<and> (case ef_startFrame effect of Some s \<Rightarrow> s \<le> frame | None \<Rightarrow> True)
      \<and> (case ef_endFrame effect of Some e \<Rightarrow> frame \<le> e | None \<Rightarrow> True)
    \<longrightarrow> applyEffect effects element effect frame
          = ed_apply defn element (ef_parameters effect) frame)
   \<and> (effects (ef_type effect) = Some noise_definition \<and> ef_enabled effect
      \<and> (case ef_startFrame effect of Some s \<Rightarrow> s \<le> frame | None \<Rightarrow> True)
      \<and> (case ef_endFrame effect of Some e \<Rightarrow> frame \<le> e | None \<Rightarrow> True)
    \<longrightarrow> (\<exists>r. applyEffect effects (VObj fs) effect frame = Inr r
          \<and> get_prop (get_prop (get_prop r ''filter'') ''noise'') ''amount''
              = get_prop (VObj (ef_parameters effect)) ''amount''))"
proof (intro conjI impI)
  assume "effects (ef_type effect) = Some defn \<and> paramDef \<in> set (ed_parameters defn)
      \<and> (ep_type paramDef = PNumber \<or> ep_type paramDef = PRange)
      \<and> get_prop (VObj (ef_parameters effect)) (ep_name paramDef) = VNum n
      \<and> ep_min paramDef = Some lo \<and> n < lo"
  then have d: "effects (ef_type effect) = Some defn"
    and p: "paramDef \<in> set (ed_parameters defn)"
    and m: "''Parameter '' @ ep_name paramDef @ '' is below minimum value '' @ numberToString lo
      \<in> set (validateParameter numberToString (ef_parameters effect) paramDef)"
    using validateParameter_below[of paramDef "ef_parameters effect" n lo numberToString]
    by blast+
  from validateEffect_errors[of effects effect defn paramDef _ numberToString, OF d p m]
  show "\<not> fst (validateEffect effects numberToString effect)"
    and "''Parameter '' @ ep_name paramDef @ '' is below minimum value '' @ numberToString lo
            \<in> set (snd (validateEffect effects numberToString effect))"
    by blast+
next
  assume "effects (ef_type effect) = Some defn \<and> paramDef \<in> set (ed_parameters defn)
      \<and> (ep_type paramDef = PNumber \<or> ep_type paramDef = PRange)
      \<and> get_prop (VObj (ef_parameters effect)) (ep_name paramDef) = VNum n
      \<and> ep_max paramDef = Some hi \<and> hi < n"
  then have d: "effects (ef_type effect) = Some defn"
    and p: "paramDef \<in> set (ed_parameters defn)"
    and m: "''Parameter '' @ ep_name paramDef @ '' is above maximum value '' @ numberToString hi
      \<in> set (validateParameter numberToString (ef_parameters effect) paramDef)"
    using validateParameter_above[of paramDef "ef_parameters effect" n hi numberToString]
    by blast+
  from validateEffect_errors[of effects effect defn paramDef _ numberToString, OF d p m]
  show "\<not> fst (validateEffect effects numberToString effect)"
    and "''Parameter '' @ ep_name paramDef @ '' is above maximum value '' @ numberToString hi
            \<in> set (snd (validateEffect effects numberToString effect))"
    by blast+
next
  assume "effects (ef_type effect) = Some defn \<and> paramDef \<in> set (ed_parameters defn)
      \<and> ep_type paramDef = PSelect \<and> ep_options paramDef = Some options
      \<and> get_prop (VObj (ef_parameters effect)) (ep_name paramDef) = v
      \<and> v \<noteq> VUndefined \<and> v \<noteq> VNull \<and> \<not> (\<exists>s. v = VStr s \<and> s \<in> set options)"
  then have d: "effects (ef_type effect) = Some defn"
    and p: "paramDef \<in> set (ed_parameters defn)"
    and m: "''Parameter '' @ ep_name paramDef @ '' must be one of: '' @ join_comma options
      \<in> set (validateParameter numberToString (ef_parameters effect) paramDef)"
    using validateParameter_select[of paramDef options "ef_parameters effect" v numberToString]
    by blast+
  from validateEffect_errors[of effects effect defn paramDef _ numberToString, OF d p m]
  show "\<not> fst (validateEffect effects numberToString effect)"
    and "''Parameter '' @ ep_name paramDef @ '' must be one of: '' @ join_comma options
            \<in> set (snd (validateEffect effects numberToString effect))"
    by blast+
next
  assume "effects (ef_type effect) = Some defn \<and> ef_enabled effect
      \<and> (case ef_startFrame effect of Some s \<Rightarrow> s \<le> frame | None \<Rightarrow> True)
      \<and> (case ef_endFrame effect of Some e \<Rightarrow> frame \<le> e | None \<Rightarrow> True)"
  then show "applyEffect effects element effect frame
          = ed_apply defn element (ef_parameters effect) frame"
    using applyEffect_raw by blast
next
  assume "effects (ef_type effect) = Some noise_definition \<and> ef_enabled effect
      \<and> (case ef_startFrame effect of Some s \<Rightarrow> s \<le> frame | None \<Rightarrow> True)
      \<and> (case ef_endFrame effect of Some e \<Rightarrow> frame \<le> e | None \<Rightarrow> True)"
  then have "applyEffect effects (VObj fs) effect frame
      = noise_apply (VObj fs) (ef_parameters effect) frame"
    using applyEffect_raw[of effects effect noise_definition frame "VObj fs"]
    by (simp add: noise_definition_def)
  with noise_apply_amount[of fs "ef_parameters effect" frame]
  show "\<exists>r. applyEffect effects (VObj fs) effect frame = Inr r
          \<and> get_prop (get_prop (get_prop r ''filter'') ''noise'') ''amount''
              = get_prop (VObj (ef_parameters effect)) ''amount''"
    by simp
qed


theorem validateEffect_rejects_applyEffect_raw_witness:
  "noise_only_registry (ef_type loud_noise) = Some noise_definition
   \<and> ef_enabled loud_noise
   \<and> get_prop (VObj (ef_parameters loud_noise)) ''amount'' = VNum 5
   \<and> \<not> fst (validateEffect noise_only_registry (\<lambda>n. show_nat (nat \<lfloor>n\<rfloor>)) loud_noise)
   \<and> ''Parameter amount is above maximum value '' @ show_nat 1
       \<in> set (snd (validateEffect noise_only_registry (\<lambda>n. show_nat (nat \<lfloor>n\<rfloor>)) loud_noise))
   \<and> applyEffect noise_only_registry (VObj [(''opacity'', VNum 1)]) loud_noise 0
       = noise_apply (VObj [(''opacity'', VNum 1)]) (ef_parameters loud_noise) 0"
  using validateEffect_rejects_applyEffect_raw
    [of noise_only_registry loud_noise noise_definition
        "\<lparr>ep_name = ''amount'', ep_type = PRange, ep_defaultValue = VNum (1 / 10),
          ep_min = Some 0, ep_max = Some 1, ep_options = None\<rparr>"
        5 0 "\<lambda>n. show_nat (nat \<lfloor>n\<rfloor>)" 1 "[]" VUndefined 0
        "VObj [(''opacity'', VNum 1)]" "[(''opacity'', VNum 1)]"]
  by (simp add: noise_only_registry_def loud_noise_def noise_definition_def)

text \<open>
  Claim C7 as stated fails in its second half: the noise effect declares \<open>amount\<close> with
  maximum 1; applied with \<open>amount = 5\<close>, it stores 5, not 1.
\<close>

theorem applyEffect_out_of_range_counterexample:
  "ep_name (hd (ed_parameters noise_definition)) = ''amount''
   \<and> ep_max (hd (ed_parameters noise_definition)) = Some 1
   \<and> applyEffect noise_only_registry (VObj [(''opacity'', VNum 1)]) loud_noise 0
       = Inr (VObj [(''opacity'', VNum 1),
                    (''filter'', VObj [(''noise'',
                       VObj [(''amount'', VNum 5), (''scale'', VNum 1), (''seed'', VNum 0)])])])"
  by (simp add: noise_only_registry_def loud_noise_def noise_definition_def applyEffect_def
      noise_apply_def inherited_def object_prototype_functions_def)

section \<open>Properties of the render job orchestrator\<close>

subsection \<open>The preview frame budget\<close>

lemma previewLoop_unit_step:
  "frameStep duration = Some 1 \<Longrightarrow> length (previewLoop duration frame) = nat \<lceil>duration - frame\<rceil>"
proof (induction duration frame rule: previewLoop.induct)
  case (1 duration frame)
  show ?case
  proof (cases "frame < duration")
    case True
    with 1 have "length (previewLoop duration (frame + 1)) = nat \<lceil>duration - (frame + 1)\<rceil>"
      by simp
    moreover have "\<lceil>duration - (frame + 1)\<rceil> = \<lceil>duration - frame\<rceil> - 1"
    proof -
      have "duration - (frame + 1) = (duration - frame) - 1" by simp
      then show ?thesis by (simp only: ceiling_diff_one)
    qed
    moreover from True have "0 < \<lceil>duration - frame\<rceil>" by simp
    ultimately show ?thesis
      using True 1(2) by (subst previewLoop.simps) (simp add: nat_diff_distrib)
  next
    case False
    then have "\<lceil>duration - frame\<rceil> \<le> 0" by (simp add: ceiling_le_iff)
    with False show ?thesis by (subst previewLoop.simps) simp
  qed
qed

lemma frameStep_299: "frameStep 299 = Some 1"
  by (simp add: frameStep_def Let_def)

text \<open>
  Claim C6 fails on the code. The stride is \<open>floor(duration / min(duration, 150))\<close>, not
  \<open>ceil(duration / 150)\<close>: for a project of 299 frames it is 1, and the preview loop
  composes all 299 frames, twice the budget less one, although the source comments the
  budget as "Max 5 seconds at 30fps".
\<close>

theorem previewLoop_exceeds_budget:
  "frameStep 299 = Some 1 \<and> length (previewLoop 299 0) = 299"
  using previewLoop_unit_step[of 299 0] by (simp add: frameStep_def Let_def)

subsection \<open>Job status and cancellation\<close>

lemma map_of_map_set: "map_of (map_set m k v) k' = (if k' = k then Some v else map_of m k')"
  by (induction m) auto

lemma objects_suspend [simp]: "rn_objects (suspend r jobId k) = rn_objects r"
  by (simp add: suspend_def)

lemma objects_settle [simp]: "rn_objects (settle r jobId) = rn_objects r"
  by (simp add: settle_def)

lemma objects_putJob [simp]: "rn_objects (putJob r jobId job) = map_set (rn_objects r) jobId job"
  by (simp add: putJob_def)

lemma active_suspend [simp]: "rn_activeJobs (suspend r jobId k) = rn_activeJobs r"
  by (simp add: suspend_def)

lemma active_settle [simp]: "rn_activeJobs (settle r jobId) = rn_activeJobs r"
  by (simp add: settle_def)

lemma active_putJob [simp]: "rn_activeJobs (putJob r jobId job) = rn_activeJobs r"
  by (simp add: putJob_def)

lemma status_updateJobStage [simp]: "rj_status (updateJobStage job stage) = rj_status job"
  by (simp add: updateJobStage_def)

lemma status_updateJobProgress [simp]: "rj_status (updateJobProgress job p) = rj_status job"
  by (simp add: updateJobProgress_def)

lemma callRenderFrame_keeps:
  "callRenderFrame rt now r job frame = (a, b) \<Longrightarrow>
     rn_objects a = rn_objects r \<and> rn_activeJobs a = rn_activeJobs r"
  by (auto simp: callRenderFrame_def split: prod.splits sum.splits)

text \<open>The objects after the loop heads: one write to the job, with its status unchanged.\<close>

lemma objects_previewDone:
  "rn_objects (previewDone jobId generatedId r job)
     = map_set (rn_objects r) jobId (updateJobStage job Finalizing)"
  by (simp add: previewDone_def)

lemma objects_previewFrom:
  "\<exists>job'. rj_status job' = rj_status job
     \<and> rn_objects (previewFrom rt now jobId generatedId r job frames frame)
         = map_set (rn_objects r) jobId job'"
proof (cases "\<exists>f. frame = Some f \<and> f < pj_duration (rj_project job)")
  case True
  then obtain f where f: "frame = Some f" "f < pj_duration (rj_project job)" by blast
  obtain a b where c: "callRenderFrame rt now r job f = (a, b)" by (cases "callRenderFrame rt now r job f")
  from f c callRenderFrame_keeps[OF c]
  have "rn_objects (previewFrom rt now jobId generatedId r job frames frame)
         = map_set (rn_objects r) jobId job"
    by (simp add: previewFrom_def)
  then show ?thesis by blast
next
  case False
  then have "previewFrom rt now jobId generatedId r job frames frame
      = previewDone jobId generatedId r job"
    by (auto simp: previewFrom_def split: option.splits)
  then have "rn_objects (previewFrom rt now jobId generatedId r job frames frame)
         = map_set (rn_objects r) jobId (updateJobStage job Finalizing)"
    by (simp add: objects_previewDone)
  moreover have "rj_status (updateJobStage job Finalizing) = rj_status job" by simp
  ultimately show ?thesis by blast
qed

lemma objects_finalFrom:
  "\<exists>job'. rj_status job' = rj_status job
     \<and> rn_objects (finalFrom rt now jobId generatedId r job frames frame)
         = map_set (rn_objects r) jobId job'"
proof (cases "frame < pj_duration (rj_project job)")
  case True
  obtain a b where c: "callRenderFrame rt now r job frame = (a, b)"
    by (cases "callRenderFrame rt now r job frame")
  from True c callRenderFrame_keeps[OF c]
  have "rn_objects (finalFrom rt now jobId generatedId r job frames frame)
         = map_set (rn_objects r) jobId job"
    by (simp add: finalFrom_def)
  then show ?thesis by blast
next
  case False
  then have "rn_objects (finalFrom rt now jobId generatedId r job frames frame)
         = map_set (rn_objects r) jobId (updateJobStage job Encoding)"
    by (simp add: finalFrom_def)
  moreover have "rj_status (updateJobStage job Encoding) = rj_status job" by simp
  ultimately show ?thesis by blast
qed

lemma active_previewFrom [simp]:
  "rn_activeJobs (previewFrom rt now jobId generatedId r job frames frame) = rn_activeJobs r"
proof (cases "\<exists>f. frame = Some f \<and> f < pj_duration (rj_project job)")
  case True
  then obtain f where f: "frame = Some f" "f < pj_duration (rj_project job)" by blast
  obtain a b where c: "callRenderFrame rt now r job f = (a, b)" by (cases "callRenderFrame rt now r job f")
  from f c callRenderFrame_keeps[OF c] show ?thesis by (simp add: previewFrom_def)
next
  case False
  then show ?thesis by (auto simp: previewFrom_def previewDone_def split: option.splits)
qed

lemma active_finalFrom [simp]:
  "rn_activeJobs (finalFrom rt now jobId generatedId r job frames frame) = rn_activeJobs r"
proof (cases "frame < pj_duration (rj_project job)")
  case True
  obtain a b where c: "callRenderFrame rt now r job frame = (a, b)"
    by (cases "callRenderFrame rt now r job frame")
  from True c callRenderFrame_keeps[OF c] show ?thesis by (simp add: finalFrom_def)
next
  case False
  then show ?thesis by (simp add: finalFrom_def)
qed

lemma write_keeps_not_processing:
  assumes w: "rn_objects r' = map_set (rn_objects r) key written"
    and st: "rj_status written \<noteq> Processing
              \<or> (\<exists>job. map_of (rn_objects r) key = Some job \<and> rj_status job = Processing)"
    and p: "map_of (rn_objects r') jobId = Some job'" "rj_status job' = Processing"
  shows "\<exists>job. map_of (rn_objects r) jobId = Some job \<and> rj_status job = Processing"
proof (cases "jobId = key")
  case True
  with w p have "written = job'" by (simp add: map_of_map_set)
  with st p True show ?thesis by auto
next
  case False
  with w p show ?thesis by (simp add: map_of_map_set)
qed

lemma renderProject_no_new_processing:
  assumes p: "map_of (rn_objects (renderProject rt now newId generatedId project options r)) jobId
                = Some job'" "rj_status job' = Processing"
  shows "\<exists>job. map_of (rn_objects r) jobId = Some job \<and> rj_status job = Processing"
proof (cases "newId \<in> fst ` set (rn_objects r)")
  case True
  with p show ?thesis by (simp add: renderProject_def)
next
  case False
  define job where "job = \<lparr>rj_id = newId, rj_project = project, rj_options = options,
                   rj_status = Pending, rj_progress = 0, rj_currentStage = Initializing,
                   rj_startTime = Some now, rj_endTime = None, rj_outputUrl = None,
                   rj_error = None\<rparr>"
  define r1 where "r1 = (putJob r newId job)\<lparr>rn_jobs := rn_jobs r @ [newId]\<rparr>"
  have pend: "rj_status job = Pending" by (simp add: job_def)
  have o1: "rn_objects r1 = map_set (rn_objects r) newId job" by (simp add: r1_def)
  have "\<exists>written. rj_status written = Pending
      \<and> rn_objects (renderProject rt now newId generatedId project options r)
          = map_set (rn_objects r1) newId written"
  proof (cases "ro_preview options")
    case True
    with False have "renderProject rt now newId generatedId project options r
        = previewFrom rt now newId generatedId r1 (updateJobStage job Composing) [] (Some 0)"
      by (simp add: renderProject_def Let_def job_def r1_def)
    with objects_previewFrom[of "updateJobStage job Composing" rt now newId generatedId r1 "[]" "Some 0"]
      pend show ?thesis by auto
  next
    case np: False
    show ?thesis
    proof (cases "validProject project")
      case True
      with False np have "renderProject rt now newId generatedId project options r
          = finalFrom rt now newId generatedId (r1\<lparr>rn_loaded := Some project\<rparr>)
                 (updateJobStage (updateJobStage job Composing) Rendering) [] 0"
        by (simp add: renderProject_def Let_def job_def r1_def)
      with objects_finalFrom[of "updateJobStage (updateJobStage job Composing) Rendering" rt now
          newId generatedId "r1\<lparr>rn_loaded := Some project\<rparr>" "[]" 0]
        pend show ?thesis by auto
    next
      case inv: False
      with False np have "renderProject rt now newId generatedId project options r
          = suspend (putJob r1 newId (updateJobStage job Composing)) newId (Rejected InvalidProject)"
        by (simp add: renderProject_def Let_def job_def r1_def)
      with pend show ?thesis
        by (intro exI[of _ "updateJobStage job Composing"]) simp
    qed
  qed
  then obtain written where wr: "rj_status written = Pending"
    and ob: "rn_objects (renderProject rt now newId generatedId project options r)
          = map_set (rn_objects r1) newId written" by blast
  from write_keeps_not_processing[OF ob _ p] wr
  obtain j1 where "map_of (rn_objects r1) jobId = Some j1" "rj_status j1 = Processing" by auto
  from write_keeps_not_processing[OF o1 _ this] pend show ?thesis by auto
qed

lemma resume_no_new_processing:
  assumes p: "map_of (rn_objects (resume rt now key generatedId r)) jobId = Some job'"
    "rj_status job' = Processing"
  shows "\<exists>job. map_of (rn_objects r) jobId = Some job \<and> rj_status job = Processing"
proof (cases "map_of (rn_pending r) key")
  case None
  with p show ?thesis by (simp add: resume_def)
next
  case (Some k)
  show ?thesis
  proof (cases "map_of (rn_objects r) key")
    case None
    with Some p show ?thesis by (simp add: resume_def)
  next
    case (Some job)
    have "\<exists>written. (rj_status written = rj_status job \<or> rj_status written \<noteq> Processing)
        \<and> (rn_objects (resume rt now key generatedId r) = map_set (rn_objects r) key written
             \<or> rn_objects (resume rt now key generatedId r) = rn_objects r)"
    proof (cases k)
      case (PreviewFrame frame frames outcome)
      show ?thesis
      proof (cases outcome)
        case (Inl f)
        with PreviewFrame Some \<open>map_of (rn_pending r) key = Some k\<close>
        show ?thesis by (auto simp: resume_def)
      next
        case (Inr frameData)
        with PreviewFrame Some \<open>map_of (rn_pending r) key = Some k\<close>
          objects_previewFrom[of "updateJobProgress job (frame / pj_duration (rj_project job) * 100)"
            rt now key generatedId r "frames @ [frameData]"
            "case frameStep (pj_duration (rj_project job)) of
                    Some stride \<Rightarrow> Some (frame + stride)
                  | None \<Rightarrow> None"]
        show ?thesis by (auto simp: resume_def)
      qed
    next
      case (PreviewVideo url)
      with Some \<open>map_of (rn_pending r) key = Some k\<close> show ?thesis
        by (intro exI[of _ "job\<lparr>rj_status := Completed, rj_outputUrl := Some url,
                                rj_endTime := Some now\<rparr>"]) (simp add: resume_def)
    next
      case (FinalFrame frame frames outcome)
      show ?thesis
      proof (cases outcome)
        case (Inl f)
        with FinalFrame Some \<open>map_of (rn_pending r) key = Some k\<close>
        show ?thesis by (auto simp: resume_def)
      next
        case (Inr frameData)
        with FinalFrame Some \<open>map_of (rn_pending r) key = Some k\<close>
          objects_finalFrom[of "updateJobProgress job (frame / pj_duration (rj_project job) * 80)"
            rt now key generatedId r "frames @ [frameData]" "frame + 1"]
        show ?thesis by (auto simp: resume_def)
      qed
    next
      case (EncodeVideo url)
      with Some \<open>map_of (rn_pending r) key = Some k\<close> show ?thesis
        by (intro exI[of _ "updateJobStage (updateJobProgress job 90) Optimizing"])
           (simp add: resume_def)
    next
      case (OptimizeOutput url)
      with Some \<open>map_of (rn_pending r) key = Some k\<close> show ?thesis
        by (intro exI[of _ "(updateJobStage (updateJobProgress job 100) Finalizing)
                       \<lparr>rj_status := Completed, rj_outputUrl := Some url,
                        rj_endTime := Some now\<rparr>"]) (simp add: resume_def)
    next
      case (Rejected f)
      with Some \<open>map_of (rn_pending r) key = Some k\<close> show ?thesis
        by (intro exI[of _ "job\<lparr>rj_status := Failed, rj_error := Some (rt_message rt f),
                                rj_endTime := Some now\<rparr>"]) (simp add: resume_def)
    qed
    then obtain written where
      st: "rj_status written = rj_status job \<or> rj_status written \<noteq> Processing"
      and ob: "rn_objects (resume rt now key generatedId r) = map_set (rn_objects r) key written
             \<or> rn_objects (resume rt now key generatedId r) = rn_objects r" by blast
    from ob show ?thesis
    proof
      assume "rn_objects (resume rt now key generatedId r) = rn_objects r"
      with p show ?thesis by simp
    next
      assume w: "rn_objects (resume rt now key generatedId r) = map_set (rn_objects r) key written"
      from st Some have "rj_status written \<noteq> Processing
              \<or> (\<exists>job. map_of (rn_objects r) key = Some job \<and> rj_status job = Processing)"
        by auto
      from write_keeps_not_processing[OF w this p] show ?thesis .
    qed
  qed
qed

lemma cancelJob_no_new_processing:
  assumes p: "map_of (rn_objects (fst (cancelJob now key r))) jobId = Some job'"
    "rj_status job' = Processing"
  shows "\<exists>job. map_of (rn_objects r) jobId = Some job \<and> rj_status job = Processing"
proof (cases "\<exists>job. getJob r key = Some job \<and> rj_status job = Processing")
  case True
  then obtain job where "getJob r key = Some job" "rj_status job = Processing" by blast
  then have "rn_objects (fst (cancelJob now key r))
      = map_set (rn_objects r) key (job\<lparr>rj_status := Failed, rj_error := Some ''Cancelled by user'',
                             rj_endTime := Some now\<rparr>)"
    by (simp add: cancelJob_def)
  from write_keeps_not_processing[OF this _ p] show ?thesis by simp
next
  case False
  then have "fst (cancelJob now key r) = r"
    by (auto simp: cancelJob_def split: option.splits)
  with p show ?thesis by simp
qed

lemma step_no_new_processing:
  assumes "map_of (rn_objects (step rt r e)) jobId = Some job'" "rj_status job' = Processing"
  shows "\<exists>job. map_of (rn_objects r) jobId = Some job \<and> rj_status job = Processing"
proof (cases e)
  case (RenderProject now newId generatedId project options)
  with assms renderProject_no_new_processing show ?thesis by simp
next
  case (Resume now key generatedId)
  with assms resume_no_new_processing show ?thesis by simp
next
  case (CancelJob now key)
  with assms cancelJob_no_new_processing show ?thesis by simp
next
  case ClearCompletedJobs
  with assms show ?thesis by (simp add: clearCompletedJobs_def)
next
  case (Build objects arrays)
  with assms show ?thesis by simp
qed

lemma run_snoc: "run rt r (events @ [e]) = step rt (run rt r events) e"
  by (simp add: run_def)

lemma run_no_new_processing:
  "map_of (rn_objects (run rt r events)) jobId = Some job' \<Longrightarrow> rj_status job' = Processing \<Longrightarrow>
   \<exists>job. map_of (rn_objects r) jobId = Some job \<and> rj_status job = Processing"
proof (induction events arbitrary: job' rule: rev_induct)
  case Nil
  then show ?case by (simp add: run_def)
next
  case (snoc e events)
  from snoc.prems step_no_new_processing[of rt "run rt r events" e jobId job']
  obtain job where "map_of (rn_objects (run rt r events)) jobId = Some job" "rj_status job = Processing"
    by (auto simp: run_snoc)
  then show ?case by (rule snoc.IH)
qed

lemma active_renderProject:
  "rn_activeJobs (renderProject rt now newId generatedId project options r) = rn_activeJobs r"
  by (simp add: renderProject_def Let_def putJob_def suspend_def)

lemma active_resume: "rn_activeJobs (resume rt now key generatedId r) = rn_activeJobs r"
  by (simp add: resume_def split: option.splits continuation.splits sum.splits)

lemma active_cancelJob:
  "set (rn_activeJobs (fst (cancelJob now key r))) \<subseteq> set (rn_activeJobs r)"
  by (auto simp: cancelJob_def split: option.splits)

lemma step_active: "set (rn_activeJobs (step rt r e)) \<subseteq> set (rn_activeJobs r)"
  using active_cancelJob
  by (cases e) (simp_all add: active_renderProject active_resume clearCompletedJobs_def)

lemma run_active: "set (rn_activeJobs (run rt r events)) \<subseteq> set (rn_activeJobs r)"
proof (induction events rule: rev_induct)
  case Nil
  then show ?case by (simp add: run_def)
next
  case (snoc e events)
  from step_active[of rt "run rt r events" e] snoc show ?case
    by (auto simp: run_snoc)
qed

lemma cancelJob_refused:
  "cancelJob now jobId (run rt newRenderer events) = (run rt newRenderer events, False)"
proof (cases "getJob (run rt newRenderer events) jobId")
  case None
  then show ?thesis by (simp add: cancelJob_def)
next
  case (Some job)
  then have m: "map_of (rn_objects (run rt newRenderer events)) jobId = Some job"
    by (simp add: getJob_def split: if_splits)
  have "rj_status job \<noteq> Processing"
  proof
    assume "rj_status job = Processing"
    from run_no_new_processing[OF m this] show False by (simp add: newRenderer_def)
  qed
  with Some show ?thesis by (simp add: cancelJob_def)
qed

text \<open>
  Claim C8 fails on the code. \<open>cancelJob\<close> acts on a job whose status is \<open>processing\<close>,
  and no job ever has that status (see C2): on every renderer that a run reaches from a
  new one, \<open>cancelJob\<close> returns false for every id and changes nothing. A final render
  that is cancelled while it waits for its first frame stays \<open>pending\<close>, goes on and ends
  \<open>completed\<close>, with no error. Only on a table that has been set by hand to hold a job in
  \<open>processing\<close>, which no run reaches, does the call return true and leave the job
  \<open>failed\<close> with its \<open>endTime\<close> set and its id out of \<open>activeJobs\<close>; the message it then
  sets is \<open>'Cancelled by user'\<close>, which contains "Cancel" with a capital and not "cancel".
\<close>

theorem cancelJob_refuses_running_job:
  "(\<forall>rt events now jobId.
      cancelJob now jobId (run rt newRenderer events) = (run rt newRenderer events, False))
   \<and> map rj_currentStage (getAllJobs (run plain_runtime newRenderer (take 1 cancelled_render)))
       = [Rendering]
   \<and> map fst (rn_pending (run plain_runtime newRenderer (take 1 cancelled_render))) = [''a'']
   \<and> snd (cancelJob 1 ''a'' (run plain_runtime newRenderer (take 1 cancelled_render))) = False
   \<and> map (\<lambda>n. map rj_status (getAllJobs (run plain_runtime newRenderer (take n cancelled_render))))
        [0, 1, 2, 3, 4, 5]
       = [[], [Pending], [Pending], [Pending], [Pending], [Completed]]
   \<and> map rj_error (getAllJobs (run plain_runtime newRenderer cancelled_render)) = [None]
   \<and> map rj_status (getAllJobs busy_renderer) = [Processing]
   \<and> snd (cancelJob 250 ''job7'' busy_renderer) = True
   \<and> map rj_status (getAllJobs (fst (cancelJob 250 ''job7'' busy_renderer))) = [Failed]
   \<and> map rj_error (getAllJobs (fst (cancelJob 250 ''job7'' busy_renderer)))
       = [Some ''Cancelled by user'']
   \<and> map rj_endTime (getAllJobs (fst (cancelJob 250 ''job7'' busy_renderer))) = [Some 250]
   \<and> rn_activeJobs (fst (cancelJob 250 ''job7'' busy_renderer)) = []
   \<and> \<not> js_includes ''Cancelled by user'' ''cancel''
   \<and> js_includes ''Cancelled by user'' ''Cancel''"
proof -
  have "map rj_currentStage (getAllJobs (run plain_runtime newRenderer (take 1 cancelled_render)))
       = [Rendering]
   \<and> map fst (rn_pending (run plain_runtime newRenderer (take 1 cancelled_render))) = [''a'']
   \<and> snd (cancelJob 1 ''a'' (run plain_runtime newRenderer (take 1 cancelled_render))) = False
   \<and> map (\<lambda>n. map rj_status (getAllJobs (run plain_runtime newRenderer (take n cancelled_render))))
        [0, 1, 2, 3, 4, 5]
       = [[], [Pending], [Pending], [Pending], [Pending], [Completed]]
   \<and> map rj_error (getAllJobs (run plain_runtime newRenderer cancelled_render)) = [None]"
    by code_simp
  moreover have "map rj_status (getAllJobs busy_renderer) = [Processing]
   \<and> snd (cancelJob 250 ''job7'' busy_renderer) = True
   \<and> map rj_status (getAllJobs (fst (cancelJob 250 ''job7'' busy_renderer))) = [Failed]
   \<and> map rj_error (getAllJobs (fst (cancelJob 250 ''job7'' busy_renderer)))
       = [Some ''Cancelled by user'']
   \<and> map rj_endTime (getAllJobs (fst (cancelJob 250 ''job7'' busy_renderer))) = [Some 250]
   \<and> rn_activeJobs (fst (cancelJob 250 ''job7'' busy_renderer)) = []"
    by code_simp
  moreover have "\<not> js_includes ''Cancelled by user'' ''cancel''
   \<and> js_includes ''Cancelled by user'' ''Cancel''"
    by code_simp
  ultimately show ?thesis using cancelJob_refused by simp
qed


lemma newRenderer_never_processing:
  "list_all (\<lambda>j. rj_status j \<noteq> Processing) (getAllJobs (run rt newRenderer events))"
proof -
  have "rj_status j \<noteq> Processing" if "j \<in> set (getAllJobs (run rt newRenderer events))" for j
  proof
    assume pr: "rj_status j = Processing"
    from that obtain k where m: "map_of (rn_objects (run rt newRenderer events)) k = Some j"
      by (auto simp: getAllJobs_def List.map_filter_def)
    from run_no_new_processing[OF m pr] show False by (simp add: newRenderer_def)
  qed
  then show ?thesis by (auto simp: list_all_iff)
qed

text \<open>
  Claim C1 fails on the code in its second half. The renderer declares
  \<open>maxConcurrentJobs = 2\<close> and \<open>activeJobs\<close> and never reads the one nor adds to the other:
  of three final renders requested in a row, each has entered the \<open>rendering\<close> stage and
  waits for its first frame when the third call returns, none has finished, and
  \<open>activeJobs\<close> is empty. The first half holds emptily: no run from a new renderer ever
  shows a job in \<open>processing\<close>, so at most 2 are.
\<close>

theorem three_requests_start_at_once:
  "rn_maxConcurrentJobs (run plain_runtime newRenderer three_requests) = 2
   \<and> map rj_id (getAllJobs (run plain_runtime newRenderer three_requests)) = [''a'', ''b'', ''c'']
   \<and> map rj_status (getAllJobs (run plain_runtime newRenderer three_requests))
       = [Pending, Pending, Pending]
   \<and> map rj_currentStage (getAllJobs (run plain_runtime newRenderer three_requests))
       = [Rendering, Rendering, Rendering]
   \<and> map fst (rn_pending (run plain_runtime newRenderer three_requests)) = [''a'', ''b'', ''c'']
   \<and> rn_activeJobs (run plain_runtime newRenderer three_requests) = []
   \<and> (\<forall>rt events.
         length (filter (\<lambda>j. rj_status j = Processing) (getAllJobs (run rt newRenderer events)))
           \<le> 2)"
proof -
  have "length (filter (\<lambda>j. rj_status j = Processing) (getAllJobs (run rt newRenderer events))) \<le> 2"
    for rt events
  proof -
    from newRenderer_never_processing[of rt events]
    have "filter (\<lambda>j. rj_status j = Processing) (getAllJobs (run rt newRenderer events)) = []"
      by (simp add: list_all_iff filter_empty_conv)
    then show ?thesis by simp
  qed
  moreover have "rn_maxConcurrentJobs (run plain_runtime newRenderer three_requests) = 2
   \<and> map rj_id (getAllJobs (run plain_runtime newRenderer three_requests)) = [''a'', ''b'', ''c'']
   \<and> map rj_status (getAllJobs (run plain_runtime newRenderer three_requests))
       = [Pending, Pending, Pending]
   \<and> map rj_currentStage (getAllJobs (run plain_runtime newRenderer three_requests))
       = [Rendering, Rendering, Rendering]
   \<and> map fst (rn_pending (run plain_runtime newRenderer three_requests)) = [''a'', ''b'', ''c'']
   \<and> rn_activeJobs (run plain_runtime newRenderer three_requests) = []"
    by code_simp
  ultimately show ?thesis by simp
qed

text \<open>
  Claim C2 fails on the code. A final render of a one-frame project goes from \<open>pending\<close>
  straight to \<open>completed\<close>, and one of a project the schema rejects from \<open>pending\<close>
  straight to \<open>failed\<close>; no run from a new renderer ever shows a job in \<open>processing\<close>,
  the status that \<open>cancelJob\<close> waits for.
\<close>

theorem job_completes_without_processing:
  "map (\<lambda>n. map rj_status (getAllJobs (run plain_runtime newRenderer (take n one_final_render))))
     [0, 1, 2, 3, 4]
   = [[], [Pending], [Pending], [Pending], [Completed]]
   \<and> map (\<lambda>n. map rj_status (getAllJobs (run plain_runtime newRenderer (take n one_rejected_render))))
     [0, 1, 2]
   = [[], [Pending], [Failed]]
   \<and> (\<forall>rt events.
         list_all (\<lambda>j. rj_status j \<noteq> Processing) (getAllJobs (run rt newRenderer events)))"
proof -
  have "map (\<lambda>n. map rj_status (getAllJobs (run plain_runtime newRenderer (take n one_final_render))))
     [0, 1, 2, 3, 4]
   = [[], [Pending], [Pending], [Pending], [Completed]]"
    by code_simp
  moreover have "map (\<lambda>n. map rj_status (getAllJobs (run plain_runtime newRenderer (take n one_rejected_render))))
     [0, 1, 2]
   = [[], [Pending], [Failed]]"
    by code_simp
  ultimately show ?thesis using newRenderer_never_processing by simp
qed

section \<open>Properties of the evaluation in a store\<close>

text \<open>
  Claim C5 fails on the code. \<open>{ ...element.properties }\<close> copies the bag one level deep,
  and \<open>setNestedProperty\<close> walks from the copy into the \<open>position\<close> object that the copy
  shares with the element: after the call at frame 15 the element's own
  \<open>properties.position.x\<close> is 75 where it was 0. \<open>keyframes.sort\<close> sorts the animation's own
  array: the keyframes at frames 30, 0 are left in the order 0, 30.
\<close>

theorem calculateElementPropertiesAtFrame_mutates_element:
  "calculateElementPropertiesAtFrame_st 100 (\<lambda>easing progress. progress) moving_store
       moving_element 15
     = (\<lparr>st_objects =
           [[(''position'', HRef 1), (''opacity'', HNum 1)],
            [(''x'', HNum 75), (''y'', HNum 0)],
            [(''position'', HRef 1), (''opacity'', HNum 1)]],
         st_keyframes =
           [[\<lparr>kf_frame = 0, kf_value = HNum 50, kf_easing = None\<rparr>,
             \<lparr>kf_frame = 30, kf_value = HNum 100, kf_easing = None\<rparr>]]\<rparr>,
        Inr (HRef 2))
   \<and> snapshot 8 moving_store (HRef (el_properties moving_element))
       = VObj [(''position'', VObj [(''x'', VNum 0), (''y'', VNum 0)]), (''opacity'', VNum 1)]
   \<and> snapshot 8
         (fst (calculateElementPropertiesAtFrame_st 100 (\<lambda>easing progress. progress)
                 moving_store moving_element 15))
         (HRef (el_properties moving_element))
       = VObj [(''position'', VObj [(''x'', VNum 75), (''y'', VNum 0)]), (''opacity'', VNum 1)]
   \<and> map kf_frame
         (keyframes_at moving_store (an_keyframes (hd (el_animations moving_element))))
       = [30, 0]
   \<and> map kf_frame
         (keyframes_at
            (fst (calculateElementPropertiesAtFrame_st 100 (\<lambda>easing progress. progress)
                    moving_store moving_element 15))
            (an_keyframes (hd (el_animations moving_element))))
       = [0, 30]"
  by code_simp

end
